theory Spec2Isabelle
  imports Main "HOL-Library.Char_ord" "HOL-Library.List_Lexorder"
begin

section \<open>Strings and numbers of the host language\<close>

text \<open>
  Strings are \<^typ>\<open>string\<close>; the codes, ZIP codes and census cells the services handle are
  ASCII, and white space is ASCII white space. A value read out of parsed JSON that may
  be \<open>null\<close> or \<open>undefined\<close> is a \<^typ>\<open>string option\<close>, \<open>None\<close> standing for both. Numbers are
  \<^typ>\<open>int\<close>: the counts the census reports are integers far below \<open>2^53\<close>, where the
  host's doubles are exact.
\<close>

definition isDigit :: "char \<Rightarrow> bool" where
  "isDigit c \<longleftrightarrow> c \<in> set ''0123456789''"

definition isWhiteSpace :: "char \<Rightarrow> bool" where
  "isWhiteSpace c \<longleftrightarrow> c \<in> set [CHR '' '', CHR 0x09, CHR 0x0A, CHR 0x0B, CHR 0x0C, CHR 0x0D]"

text \<open>\<open>String.prototype.trim\<close>: white space is removed at both ends.\<close>

definition trim :: "string \<Rightarrow> string" where
  "trim s = rev (dropWhile isWhiteSpace (rev (dropWhile isWhiteSpace s)))"

definition digitValue :: "char \<Rightarrow> nat" where
  "digitValue c = of_char c - 48"

fun digitsValue :: "nat \<Rightarrow> string \<Rightarrow> nat" where
  "digitsValue acc [] = acc"
| "digitsValue acc (c # cs) = digitsValue (10 * acc + digitValue c) cs"

text \<open>
  \<open>parseInt(value, 10)\<close>: leading white space is skipped, one sign is read, then the longest
  run of decimal digits; with no digit the result is \<open>NaN\<close>, here \<open>None\<close>. Whatever follows
  the digits is ignored.
\<close>

definition parseInt :: "string \<Rightarrow> int option" where
  "parseInt s =
     (let t = dropWhile isWhiteSpace s;
          neg = (t \<noteq> [] \<and> hd t = CHR ''-'');
          u = (if t \<noteq> [] \<and> (hd t = CHR ''-'' \<or> hd t = CHR ''+'') then tl t else t);
          z = takeWhile isDigit u
      in if z = [] then None
         else Some (if neg then - int (digitsValue 0 z) else int (digitsValue 0 z)))"

text \<open>\<open>!value\<close> on a string or a missing value: \<open>null\<close>, \<open>undefined\<close> and the empty string.\<close>

fun falsy :: "string option \<Rightarrow> bool" where
  "falsy None = True"
| "falsy (Some s) = (s = [])"

section \<open>The census service: parsing cells\<close>

definition parseEmployeeCount :: "string option \<Rightarrow> int" where
  "parseEmployeeCount v =
     (if falsy v \<or> v = Some ''null'' \<or> v = Some ''N'' \<or> v = Some ''D'' \<or> v = Some ''S''
      then 0
      else (case parseInt (the v) of None \<Rightarrow> 0 | Some num \<Rightarrow> num))"

definition parsePayroll :: "string option \<Rightarrow> int" where
  "parsePayroll v =
     (if falsy v \<or> v = Some ''null'' \<or> v = Some ''N'' \<or> v = Some ''D'' \<or> v = Some ''S''
      then 0
      else (case parseInt (the v) of None \<Rightarrow> 0 | Some num \<Rightarrow> num * 1000))"

subsection \<open>Data and the network\<close>

text \<open>
  \<open>ProcessedEmployerData\<close> as the services build it. The optional fields the services never
  set (\<open>subIndustries\<close>, \<open>isExpanded\<close>, \<open>isLoadingSubIndustries\<close>) belong to the user
  interface and are left out.
\<close>

record ProcessedEmployerData =
  industry :: string
  employees :: int
  establishments :: int
  payroll :: int
  naicsCode :: string
  location :: string
  geoId :: string
  countyTotalEmployees :: "int option"
  countyTotalEstablishments :: "int option"
  countyTotalPayroll :: "int option"
  level :: "nat option"

text \<open>The object \<open>{employees, establishments, payroll}\<close> that \<open>fetchCountyTotals\<close> returns.\<close>

record CountyTotals =
  totalEmployees :: int
  totalEstablishments :: int
  totalPayroll :: int

datatype ApiError = ApiError string

text \<open>What a \<open>throw\<close> inside the services raises; every one of them is caught again.\<close>

datatype exn = Error string | TypeError | SyntaxError | NetworkError

text \<open>
  A \<open>fetch\<close> either rejects or resolves to a response with a status and a body. The body
  is given by what the code's own tests make of its text: for the census API it is blank
  (\<open>!responseText.trim()\<close>), not JSON (\<open>JSON.parse\<close> throws), JSON that is not an array, or
  an array of rows. A row is \<open>null\<close> (reading \<open>row[i]\<close> then throws a \<open>TypeError\<close>) or holds
  cells; a cell beyond the end of its row is \<open>undefined\<close>.
\<close>

datatype row = NullRow | Cells "string option list"

datatype census_body = Blank | Malformed | NotArray | Rows "row list"

datatype 'b response = FetchFailed | Response nat 'b

definition ok :: "nat \<Rightarrow> bool" where
  "ok status \<longleftrightarrow> 200 \<le> status \<and> status \<le> 299"

definition cell :: "string option list \<Rightarrow> nat \<Rightarrow> string option" where
  "cell cs i = (if i < length cs then cs ! i else None)"

text \<open>\<open>v || d\<close> for a cell \<open>v\<close> and a default string \<open>d\<close>.\<close>

definition orDefault :: "string option \<Rightarrow> string \<Rightarrow> string" where
  "orDefault v d = (if falsy v then d else the v)"

text \<open>The first result of the HUD API's answer, \<open>hudData?.data?.results?.[0]\<close>.\<close>

record HudResult =
  geoid :: "string option"
  county_name :: string
  state_name :: string

datatype hud_body = HudMalformed | HudNoResult | HudFirst HudResult

text \<open>
  An answer of the NAICS API: not JSON, the JSON value \<open>null\<close> (reading \<open>data.result\<close>
  throws), or the items of \<open>data.result\<close> (none when it is not an object). An item that is
  not an object is \<open>None\<close>. A field of an item holds the text \<open>toString()\<close> gives, or \<open>None\<close>
  when the item has no such field.
\<close>

record NaicsRecord =
  rec_code :: "string option"
  rec_naics22 :: "string option"
  rec_title :: "string option"
  rec_index_desc :: "string option"
  rec_description :: "string option"

datatype naics_body = NaicsMalformed | NaicsNull | NaicsResult "NaicsRecord option list"

text \<open>
  The three kinds of request the NAICS service sends: the chart query and the seed search
  go to \<open>BASE_URL\<close> with \<open>search = year\<close>, the child search goes to the proxied path.
\<close>

datatype naics_request = Chart string | Search string string | ProxySearch string string

text \<open>
  The world outside: what each request is answered with. The NAICS answers may change
  from one request to the next, so they also depend on how many requests were sent before.
\<close>

record world =
  census :: "string \<Rightarrow> census_body response"
  hud :: "string \<Rightarrow> hud_body response"
  naics :: "nat \<Rightarrow> naics_request \<Rightarrow> naics_body response"

subsection \<open>Sector data for one county\<close>

definition BASE_URL :: string where
  "BASE_URL = ''https://api.census.gov/data/2022/cbp''"

definition naicsCodes :: "string list" where
  "naicsCodes =
     [''11'', ''21'', ''22'', ''23'', ''31'', ''32'', ''33'', ''42'', ''44'', ''45'', ''48'', ''49'',
      ''51'', ''52'', ''53'', ''54'', ''55'', ''56'', ''61'', ''62'', ''71'', ''72'', ''81'', ''92'']"

definition sectorUrl :: "string \<Rightarrow> string \<Rightarrow> string \<Rightarrow> string \<Rightarrow> string" where
  "sectorUrl apiKey state' county' naicsCode' =
     BASE_URL @ ''?get=NAME,NAICS2017_LABEL,EMP,ESTAB,PAYANN,GEO_ID&for=county:'' @ county'
       @ ''&in=state:'' @ state' @ ''&NAICS2017='' @ naicsCode' @ ''&key='' @ apiKey"

definition totalsUrl :: "string \<Rightarrow> string \<Rightarrow> string \<Rightarrow> string" where
  "totalsUrl apiKey state' county' =
     BASE_URL @ ''?get=NAME,EMP,ESTAB,PAYANN&for=county:'' @ county'
       @ ''&in=state:'' @ state' @ ''&NAICS2017=00&key='' @ apiKey"

text \<open>The loop of \<open>fetchCountySectorData\<close> over the rows after the header.\<close>

fun sectorRows ::
  "string \<Rightarrow> ProcessedEmployerData list \<Rightarrow> row list \<Rightarrow> exn + ProcessedEmployerData list" where
  "sectorRows naicsCode' results [] = Inr results"
| "sectorRows naicsCode' results (NullRow # rows) = Inl TypeError"
| "sectorRows naicsCode' results (Cells cs # rows) =
     (let emp = parseEmployeeCount (cell cs 2);
          est = parseEmployeeCount (cell cs 3);
          pay = parsePayroll (cell cs 4)
      in if emp > 0 \<or> est > 0 \<or> pay > 0
         then sectorRows naicsCode'
                (results @
                  [\<lparr>industry = orDefault (cell cs 1) (''NAICS '' @ naicsCode'),
                    employees = emp,
                    establishments = est,
                    payroll = pay,
                    naicsCode = naicsCode',
                    location = orDefault (cell cs 0) ''Unknown Location'',
                    geoId = orDefault (cell cs 5) '''',
                    countyTotalEmployees = None,
                    countyTotalEstablishments = None,
                    countyTotalPayroll = None,
                    level = Some (length naicsCode')\<rparr>])
                rows
         else sectorRows naicsCode' results rows)"

definition fetchCountySectorData ::
  "world \<Rightarrow> string \<Rightarrow> string \<Rightarrow> string \<Rightarrow> string \<Rightarrow> string \<Rightarrow> ProcessedEmployerData list" where
  "fetchCountySectorData w apiKey state' county' naicsCode' originalZip =
     (case census w (sectorUrl apiKey state' county' naicsCode') of
        FetchFailed \<Rightarrow> []
      | Response status body \<Rightarrow>
          if \<not> ok status then []
          else (case body of
                  Blank \<Rightarrow> []
                | Malformed \<Rightarrow> []
                | NotArray \<Rightarrow> []
                | Rows data \<Rightarrow>
                    if length data < 2 then []
                    else (case sectorRows naicsCode' [] (tl data) of
                            Inl e \<Rightarrow> []
                          | Inr results \<Rightarrow> results)))"

text \<open>
  \<open>fetchCountyTotals\<close> reads the row after the header; on a \<open>null\<close> row the read throws and
  the \<open>catch\<close> returns the zeros.
\<close>

definition zeroTotals :: CountyTotals where
  "zeroTotals = \<lparr>totalEmployees = 0, totalEstablishments = 0, totalPayroll = 0\<rparr>"

definition fetchCountyTotals :: "world \<Rightarrow> string \<Rightarrow> string \<Rightarrow> string \<Rightarrow> string \<Rightarrow> CountyTotals" where
  "fetchCountyTotals w apiKey state' county' originalZip =
     (case census w (totalsUrl apiKey state' county') of
        FetchFailed \<Rightarrow> zeroTotals
      | Response status body \<Rightarrow>
          if \<not> ok status then zeroTotals
          else (case body of
                  Blank \<Rightarrow> zeroTotals
                | Malformed \<Rightarrow> zeroTotals
                | NotArray \<Rightarrow> zeroTotals
                | Rows data \<Rightarrow>
                    if length data < 2 then zeroTotals
                    else (case data ! 1 of
                            NullRow \<Rightarrow> zeroTotals
                          | Cells cs \<Rightarrow>
                              \<lparr>totalEmployees = parseEmployeeCount (cell cs 1),
                               totalEstablishments = parseEmployeeCount (cell cs 2),
                               totalPayroll = parsePayroll (cell cs 3)\<rparr>)))"

text \<open>
  \<open>.filter(item => item.employees > 0 || item.establishments > 0 || item.payroll > 0)\<close> and
  \<open>.sort((a, b) => b.employees - a.employees)\<close>; the host's sort is stable.
\<close>

definition hasData :: "ProcessedEmployerData \<Rightarrow> bool" where
  "hasData item \<longleftrightarrow> employees item > 0 \<or> establishments item > 0 \<or> payroll item > 0"

definition sortByEmployees :: "ProcessedEmployerData list \<Rightarrow> ProcessedEmployerData list" where
  "sortByEmployees items = sort_key (\<lambda>item. - employees item) items"

text \<open>The loop of \<open>fetchEmploymentByCounty\<close> over the sector codes, pushing each sector's items.\<close>

fun sectorsLoop ::
  "world \<Rightarrow> string \<Rightarrow> string \<Rightarrow> string \<Rightarrow> string \<Rightarrow> ProcessedEmployerData list \<Rightarrow> string list
     \<Rightarrow> ProcessedEmployerData list" where
  "sectorsLoop w apiKey state' county' originalZip results [] = results"
| "sectorsLoop w apiKey state' county' originalZip results (naicsCode' # rest) =
     sectorsLoop w apiKey state' county' originalZip
       (results @ fetchCountySectorData w apiKey state' county' naicsCode' originalZip) rest"

definition fetchEmploymentByCounty ::
  "world \<Rightarrow> string \<Rightarrow> string \<Rightarrow> string \<Rightarrow> string \<Rightarrow> ProcessedEmployerData list" where
  "fetchEmploymentByCounty w apiKey state' county' originalZip =
     sortByEmployees (filter hasData (sectorsLoop w apiKey state' county' originalZip [] naicsCodes))"

subsection \<open>From ZIP code to county\<close>

record County =
  state :: string
  county :: string
  name :: string

text \<open>\<open>(zip || "").replace(/\D/g, "").padStart(5, "0").slice(0, 5)\<close>\<close>

definition normalizeZip :: "string \<Rightarrow> string" where
  "normalizeZip zip' =
     (let d = filter isDigit zip' in take 5 (replicate (5 - length d) (CHR ''0'') @ d))"

definition hudUrl :: "string \<Rightarrow> string" where
  "hudUrl z = ''https://www.huduser.gov/hudapi/public/usps?type=2&query='' @ z"

definition countyFromZip_viaHUD :: "world \<Rightarrow> string \<Rightarrow> exn + County" where
  "countyFromZip_viaHUD w zip' =
     (let z = normalizeZip zip' in
      case hud w (hudUrl z) of
        FetchFailed \<Rightarrow> Inl NetworkError
      | Response status body \<Rightarrow>
          if \<not> ok status then Inl (Error ''HUD API query failed'')
          else (case body of
                  HudMalformed \<Rightarrow> Inl SyntaxError
                | HudNoResult \<Rightarrow> Inl (Error (''ZIP code '' @ z @ '' not found in HUD database.''))
                | HudFirst hudResult \<Rightarrow>
                    (case geoid hudResult of
                       None \<Rightarrow> Inl (Error (''Could not determine county FIPS codes for ZIP '' @ z))
                     | Some g \<Rightarrow>
                         if length g \<noteq> 5
                         then Inl (Error (''Could not determine county FIPS codes for ZIP '' @ z))
                         else Inr \<lparr>state = take 2 g,
                                   county = take 3 (drop 2 g),
                                   name = county_name hudResult @ '', '' @ state_name hudResult\<rparr>)))"

definition zipToCounty :: "(string \<times> County) list" where
  "zipToCounty =
     [(''02459'', \<lparr>state = ''25'', county = ''017'', name = ''Middlesex County, MA''\<rparr>),
      (''02138'', \<lparr>state = ''25'', county = ''017'', name = ''Middlesex County, MA''\<rparr>),
      (''02115'', \<lparr>state = ''25'', county = ''025'', name = ''Suffolk County, MA''\<rparr>),
      (''02101'', \<lparr>state = ''25'', county = ''025'', name = ''Suffolk County, MA''\<rparr>),
      (''02116'', \<lparr>state = ''25'', county = ''025'', name = ''Suffolk County, MA''\<rparr>),
      (''02134'', \<lparr>state = ''25'', county = ''025'', name = ''Suffolk County, MA''\<rparr>),
      (''10001'', \<lparr>state = ''36'', county = ''061'', name = ''New York County, NY''\<rparr>),
      (''10002'', \<lparr>state = ''36'', county = ''061'', name = ''New York County, NY''\<rparr>),
      (''10003'', \<lparr>state = ''36'', county = ''061'', name = ''New York County, NY''\<rparr>),
      (''11201'', \<lparr>state = ''36'', county = ''047'', name = ''Kings County, NY''\<rparr>),
      (''90210'', \<lparr>state = ''06'', county = ''037'', name = ''Los Angeles County, CA''\<rparr>),
      (''90211'', \<lparr>state = ''06'', county = ''037'', name = ''Los Angeles County, CA''\<rparr>),
      (''94102'', \<lparr>state = ''06'', county = ''075'', name = ''San Francisco County, CA''\<rparr>),
      (''94103'', \<lparr>state = ''06'', county = ''075'', name = ''San Francisco County, CA''\<rparr>),
      (''60601'', \<lparr>state = ''17'', county = ''031'', name = ''Cook County, IL''\<rparr>),
      (''60602'', \<lparr>state = ''17'', county = ''031'', name = ''Cook County, IL''\<rparr>),
      (''60603'', \<lparr>state = ''17'', county = ''031'', name = ''Cook County, IL''\<rparr>),
      (''77001'', \<lparr>state = ''48'', county = ''201'', name = ''Harris County, TX''\<rparr>),
      (''75201'', \<lparr>state = ''48'', county = ''113'', name = ''Dallas County, TX''\<rparr>),
      (''33101'', \<lparr>state = ''12'', county = ''086'', name = ''Miami-Dade County, FL''\<rparr>),
      (''33102'', \<lparr>state = ''12'', county = ''086'', name = ''Miami-Dade County, FL''\<rparr>),
      (''98101'', \<lparr>state = ''53'', county = ''033'', name = ''King County, WA''\<rparr>),
      (''98102'', \<lparr>state = ''53'', county = ''033'', name = ''King County, WA''\<rparr>),
      (''20810'', \<lparr>state = ''24'', county = ''031'', name = ''Montgomery County, MD''\<rparr>)]"

text \<open>
  The static tables are object literals, and \<open>table[key]\<close> on an object literal also finds
  the properties every object inherits from \<open>Object.prototype\<close>. Their values are functions
  (for \<open>__proto__\<close>, the prototype itself): truthy, and without a \<open>state\<close> or \<open>county\<close>. No
  such key is a digit string, so no ZIP code meets one.
\<close>

definition objectPrototypeKeys :: "string list" where
  "objectPrototypeKeys =
     [''constructor'', ''hasOwnProperty'', ''isPrototypeOf'', ''propertyIsEnumerable'',
      ''toLocaleString'', ''toString'', ''valueOf'', ''__proto__'', ''__defineGetter__'',
      ''__defineSetter__'', ''__lookupGetter__'', ''__lookupSetter__'']"

datatype 'a property = Own 'a | Inherited string

definition getProperty :: "(string \<times> 'a) list \<Rightarrow> string \<Rightarrow> 'a property option" where
  "getProperty table k =
     (case map_of table k of
        Some v \<Rightarrow> Some (Own v)
      | None \<Rightarrow> if k \<in> set objectPrototypeKeys then Some (Inherited k) else None)"

text \<open>\<open>zipToCounty[zipCode] || null\<close>\<close>

definition getCountyFallback :: "string \<Rightarrow> County property option" where
  "getCountyFallback zipCode = getProperty zipToCounty zipCode"

definition getCountyFromZip :: "world \<Rightarrow> string \<Rightarrow> County property option" where
  "getCountyFromZip w zipCode =
     (case countyFromZip_viaHUD w zipCode of
        Inr found \<Rightarrow> Some (Own found)
      | Inl e \<Rightarrow> getCountyFallback zipCode)"

text \<open>
  \<open>county.state\<close> and \<open>county.county\<close> as the request URLs show them: an inherited value has
  neither, and the URL template prints \<open>undefined\<close>.
\<close>

fun stateOf :: "County property \<Rightarrow> string" where
  "stateOf (Own c) = state c"
| "stateOf (Inherited k) = ''undefined''"

fun countyOf :: "County property \<Rightarrow> string" where
  "countyOf (Own c) = county c"
| "countyOf (Inherited k) = ''undefined''"

definition addCountyTotals :: "CountyTotals \<Rightarrow> ProcessedEmployerData \<Rightarrow> ProcessedEmployerData" where
  "addCountyTotals countyTotals sector =
     sector\<lparr>countyTotalEmployees := Some (totalEmployees countyTotals),
            countyTotalEstablishments := Some (totalEstablishments countyTotals),
            countyTotalPayroll := Some (totalPayroll countyTotals)\<rparr>"

definition fetchEmploymentDataForZip ::
  "world \<Rightarrow> string \<Rightarrow> string \<Rightarrow> ApiError + ProcessedEmployerData list" where
  "fetchEmploymentDataForZip w apiKey zipCode =
     (case getCountyFromZip w zipCode of
        None \<Rightarrow>
          Inl (ApiError (''Failed to fetch employment data: Could not find county for ZIP code ''
                 @ zipCode))
      | Some found \<Rightarrow>
          (let sectorData = fetchEmploymentByCounty w apiKey (stateOf found) (countyOf found) zipCode;
               countyTotals = fetchCountyTotals w apiKey (stateOf found) (countyOf found) zipCode
           in Inr (map (addCountyTotals countyTotals) sectorData)))"

section \<open>The NAICS service\<close>

record NAICSCode =
  code :: string
  title :: string

text \<open>
  The service's static state: the cache, and with it the requests sent so far, so that
  sending a request is visible in the state.
\<close>

record naics_state =
  cache :: "string \<rightharpoonup> NAICSCode list"
  requests :: "naics_request list"

definition initial :: naics_state where
  "initial = \<lparr>cache = Map.empty, requests = []\<rparr>"

definition naicsFetch ::
  "world \<Rightarrow> naics_state \<Rightarrow> naics_request \<Rightarrow> naics_body response \<times> naics_state" where
  "naicsFetch w s request =
     (naics w (length (requests s)) request, s\<lparr>requests := requests s @ [request]\<rparr>)"

text \<open>\<open>a || b\<close> on two fields, and \<open>.toString()\<close> of the outcome of \<open>a || ... || ''\<close>.\<close>

definition orElse :: "string option \<Rightarrow> string option \<Rightarrow> string option" where
  "orElse a b = (if falsy a then b else a)"

definition textOf :: "string option \<Rightarrow> string" where
  "textOf v = (case v of None \<Rightarrow> [] | Some t \<Rightarrow> t)"

text \<open>The tests \<open>/^\d{2}$/\<close>, \<open>/^\d+$/\<close> and \<open>startsWith\<close>.\<close>

definition isTwoDigits :: "string \<Rightarrow> bool" where
  "isTwoDigits c \<longleftrightarrow> length c = 2 \<and> list_all isDigit c"

definition allDigits :: "string \<Rightarrow> bool" where
  "allDigits c \<longleftrightarrow> c \<noteq> [] \<and> list_all isDigit c"

definition startsWith :: "string \<Rightarrow> string \<Rightarrow> bool" where
  "startsWith c p \<longleftrightarrow> take (length p) c = p"

text \<open>
  A \<open>Map<string, string>\<close> is an association list in insertion order; the code only sets a
  key the map does not have. The result lists are sorted by code, and \<open>localeCompare\<close> on
  digit strings is the order of the strings.
\<close>

definition mapHas :: "(string \<times> string) list \<Rightarrow> string \<Rightarrow> bool" where
  "mapHas codes c \<longleftrightarrow> c \<in> fst ` set codes"

definition toCodes :: "(string \<times> string) list \<Rightarrow> NAICSCode list" where
  "toCodes codes = map (\<lambda>(c, t). \<lparr>code = c, title = t\<rparr>) (sort_key fst codes)"

subsection \<open>All codes: chart method, sweep method, fallback\<close>

text \<open>
  The loop of \<open>tryChartMethod\<close> over the items: \<open>codes\<close> is its \<open>Set\<close>, in insertion order,
  \<open>titles\<close> its record of titles, where a later title replaces an earlier one.
\<close>

fun chartItems ::
  "string list \<Rightarrow> (string \<rightharpoonup> string) \<Rightarrow> NaicsRecord option list
     \<Rightarrow> string list \<times> (string \<rightharpoonup> string)" where
  "chartItems codes titles [] = (codes, titles)"
| "chartItems codes titles (None # items) = chartItems codes titles items"
| "chartItems codes titles (Some item # items) =
     (let c = trim (textOf (orElse (rec_code item) (orElse (rec_naics22 item) (Some []))));
          t = trim (textOf (orElse (rec_title item) (orElse (rec_index_desc item) (Some []))))
      in if isTwoDigits c
         then chartItems (if c \<in> set codes then codes else codes @ [c])
                (if t \<noteq> [] then titles(c \<mapsto> t) else titles) items
         else chartItems codes titles items)"

definition chartResult :: "NaicsRecord option list \<Rightarrow> NAICSCode list" where
  "chartResult items =
     (let (codes, titles) = chartItems [] Map.empty items
      in map (\<lambda>c. \<lparr>code = c, title = (case titles c of Some t \<Rightarrow> t | None \<Rightarrow> ''NAICS '' @ c)\<rparr>)
           (sort codes))"

definition tryChartMethod ::
  "world \<Rightarrow> naics_state \<Rightarrow> string \<Rightarrow> NAICSCode list \<times> naics_state" where
  "tryChartMethod w s year =
     (let (reply, s1) = naicsFetch w s (Chart year) in
      case reply of
        FetchFailed \<Rightarrow> ([], s1)
      | Response status body \<Rightarrow>
          if \<not> ok status then ([], s1)
          else (case body of
                  NaicsMalformed \<Rightarrow> ([], s1)
                | NaicsNull \<Rightarrow> ([], s1)
                | NaicsResult items \<Rightarrow> (chartResult items, s1)))"

text \<open>The loops of \<open>sweepSearchMethod\<close>: over the records of one answer, and over the seeds.\<close>

fun sweepRecords ::
  "(string \<times> string) list \<Rightarrow> NaicsRecord option list \<Rightarrow> (string \<times> string) list" where
  "sweepRecords codes [] = codes"
| "sweepRecords codes (None # records) = sweepRecords codes records"
| "sweepRecords codes (Some r # records) =
     (let c = trim (textOf (orElse (rec_naics22 r) (Some [])));
          t = trim (textOf (orElse (rec_title r) (orElse (rec_index_desc r) (Some []))))
      in if isTwoDigits c
         then (if \<not> mapHas codes c \<and> t \<noteq> [] then sweepRecords (codes @ [(c, t)]) records
               else if \<not> mapHas codes c then sweepRecords (codes @ [(c, ''NAICS '' @ c)]) records
               else sweepRecords codes records)
         else sweepRecords codes records)"

definition seeds :: "string list" where
  "seeds = map (\<lambda>c. [c]) ''0123456789abcdefghijklmnopqrstuvwxyz''"

fun sweepSeeds ::
  "world \<Rightarrow> string \<Rightarrow> (string \<times> string) list \<Rightarrow> naics_state \<Rightarrow> string list
     \<Rightarrow> (string \<times> string) list \<times> naics_state" where
  "sweepSeeds w year codes s [] = (codes, s)"
| "sweepSeeds w year codes s (seed # rest) =
     (let (reply, s1) = naicsFetch w s (Search year seed) in
      case reply of
        FetchFailed \<Rightarrow> sweepSeeds w year codes s1 rest
      | Response status body \<Rightarrow>
          if \<not> ok status then sweepSeeds w year codes s1 rest
          else (case body of
                  NaicsMalformed \<Rightarrow> sweepSeeds w year codes s1 rest
                | NaicsNull \<Rightarrow> sweepSeeds w year codes s1 rest
                | NaicsResult records \<Rightarrow> sweepSeeds w year (sweepRecords codes records) s1 rest))"

definition sweepSearchMethod ::
  "world \<Rightarrow> naics_state \<Rightarrow> string \<Rightarrow> NAICSCode list \<times> naics_state" where
  "sweepSearchMethod w s year =
     (let (codes, s1) = sweepSeeds w year [] s seeds in (toCodes codes, s1))"

definition getFallbackNAICSCodes :: "NAICSCode list" where
  "getFallbackNAICSCodes =
     [\<lparr>code = ''11'', title = ''Agriculture, Forestry, Fishing and Hunting''\<rparr>,
      \<lparr>code = ''21'', title = ''Mining, Quarrying, and Oil and Gas Extraction''\<rparr>,
      \<lparr>code = ''22'', title = ''Utilities''\<rparr>,
      \<lparr>code = ''23'', title = ''Construction''\<rparr>,
      \<lparr>code = ''31'', title = ''Manufacturing''\<rparr>,
      \<lparr>code = ''32'', title = ''Manufacturing''\<rparr>,
      \<lparr>code = ''33'', title = ''Manufacturing''\<rparr>,
      \<lparr>code = ''42'', title = ''Wholesale Trade''\<rparr>,
      \<lparr>code = ''44'', title = ''Retail Trade''\<rparr>,
      \<lparr>code = ''45'', title = ''Retail Trade''\<rparr>,
      \<lparr>code = ''48'', title = ''Transportation and Warehousing''\<rparr>,
      \<lparr>code = ''49'', title = ''Transportation and Warehousing''\<rparr>,
      \<lparr>code = ''51'', title = ''Information''\<rparr>,
      \<lparr>code = ''52'', title = ''Finance and Insurance''\<rparr>,
      \<lparr>code = ''53'', title = ''Real Estate and Rental and Leasing''\<rparr>,
      \<lparr>code = ''54'', title = ''Professional, Scientific, and Technical Services''\<rparr>,
      \<lparr>code = ''55'', title = ''Management of Companies and Enterprises''\<rparr>,
      \<lparr>code = ''56'', title = ''Administrative and Support and Waste Management''\<rparr>,
      \<lparr>code = ''61'', title = ''Educational Services''\<rparr>,
      \<lparr>code = ''62'', title = ''Health Care and Social Assistance''\<rparr>,
      \<lparr>code = ''71'', title = ''Arts, Entertainment, and Recreation''\<rparr>,
      \<lparr>code = ''72'', title = ''Accommodation and Food Services''\<rparr>,
      \<lparr>code = ''81'', title = ''Other Services (except Public Administration)''\<rparr>,
      \<lparr>code = ''92'', title = ''Public Administration''\<rparr>,
      \<lparr>code = ''621'', title = ''Ambulatory Health Care Services''\<rparr>,
      \<lparr>code = ''622'', title = ''Hospitals''\<rparr>,
      \<lparr>code = ''623'', title = ''Nursing and Residential Care Facilities''\<rparr>,
      \<lparr>code = ''624'', title = ''Social Assistance''\<rparr>,
      \<lparr>code = ''611'', title = ''Educational Services''\<rparr>,
      \<lparr>code = ''541'', title = ''Professional, Scientific, and Technical Services''\<rparr>,
      \<lparr>code = ''722'', title = ''Food Services and Drinking Places''\<rparr>,
      \<lparr>code = ''721'', title = ''Accommodation''\<rparr>,
      \<lparr>code = ''236'', title = ''Construction of Buildings''\<rparr>,
      \<lparr>code = ''237'', title = ''Heavy and Civil Engineering Construction''\<rparr>,
      \<lparr>code = ''238'', title = ''Specialty Trade Contractors''\<rparr>,
      \<lparr>code = ''441'', title = ''Motor Vehicle and Parts Dealers''\<rparr>,
      \<lparr>code = ''445'', title = ''Food and Beverage Stores''\<rparr>,
      \<lparr>code = ''452'', title = ''General Merchandise Stores''\<rparr>,
      \<lparr>code = ''561'', title = ''Administrative and Support Services''\<rparr>,
      \<lparr>code = ''562'', title = ''Waste Management and Remediation Services''\<rparr>,
      \<lparr>code = ''311'', title = ''Food Manufacturing''\<rparr>,
      \<lparr>code = ''332'', title = ''Fabricated Metal Product Manufacturing''\<rparr>,
      \<lparr>code = ''333'', title = ''Machinery Manufacturing''\<rparr>,
      \<lparr>code = ''334'', title = ''Computer and Electronic Product Manufacturing''\<rparr>,
      \<lparr>code = ''484'', title = ''Truck Transportation''\<rparr>,
      \<lparr>code = ''493'', title = ''Warehousing and Storage''\<rparr>,
      \<lparr>code = ''522'', title = ''Credit Intermediation and Related Activities''\<rparr>]"

text \<open>
  \<open>tryChartMethod\<close> and \<open>sweepSearchMethod\<close> catch whatever is thrown inside them, so the
  \<open>catch\<close> of \<open>fetchNAICSCodes\<close>, which would also cache and return the fallback, is never
  entered.
\<close>

definition fetchNAICSCodes ::
  "world \<Rightarrow> naics_state \<Rightarrow> string \<Rightarrow> NAICSCode list \<times> naics_state" where
  "fetchNAICSCodes w s year =
     (let cacheKey = ''all-'' @ year in
      case cache s cacheKey of
        Some cached \<Rightarrow> (cached, s)
      | None \<Rightarrow>
          (let (chart, s1) = tryChartMethod w s year;
               (swept, s2) = (if chart = [] then sweepSearchMethod w s1 year else (chart, s1));
               codes = (if swept = [] then getFallbackNAICSCodes else swept)
           in (codes, s2\<lparr>cache := (cache s2)(cacheKey \<mapsto> codes)\<rparr>)))"

subsection \<open>Child codes\<close>

definition searchStrategies :: "string \<Rightarrow> string list" where
  "searchStrategies parentCode =
     [parentCode, parentCode @ ''*'', parentCode @ ''0'', parentCode @ ''1'', take 2 parentCode]"

text \<open>The loop of \<open>searchChildCodes\<close> over the records of one answer.\<close>

fun childRecords ::
  "string \<Rightarrow> (string \<times> string) list \<Rightarrow> NaicsRecord option list \<Rightarrow> (string \<times> string) list" where
  "childRecords parentCode codes [] = codes"
| "childRecords parentCode codes (None # records) = childRecords parentCode codes records"
| "childRecords parentCode codes (Some r # records) =
     (let c = trim (textOf (orElse (rec_naics22 r) (orElse (rec_code r) (Some []))));
          t = trim (textOf (orElse (rec_title r)
                (orElse (rec_index_desc r) (orElse (rec_description r) (Some [])))))
      in if length c = length parentCode + 1 \<and> startsWith c parentCode \<and> allDigits c
         then (if \<not> mapHas codes c
               then childRecords parentCode
                      (codes @ [(c, if t \<noteq> [] then t else ''NAICS '' @ c)]) records
               else childRecords parentCode codes records)
         else childRecords parentCode codes records)"

text \<open>The loop over the search terms; it stops at the first term that leaves codes in the map.\<close>

fun searchTerms ::
  "world \<Rightarrow> string \<Rightarrow> (string \<times> string) list \<Rightarrow> naics_state \<Rightarrow> string list
     \<Rightarrow> (string \<times> string) list \<times> naics_state" where
  "searchTerms w parentCode codes s [] = (codes, s)"
| "searchTerms w parentCode codes s (searchTerm # rest) =
     (let (reply, s1) = naicsFetch w s (ProxySearch ''2022'' searchTerm) in
      case reply of
        FetchFailed \<Rightarrow> searchTerms w parentCode codes s1 rest
      | Response status body \<Rightarrow>
          if \<not> ok status then searchTerms w parentCode codes s1 rest
          else (case body of
                  NaicsMalformed \<Rightarrow> searchTerms w parentCode codes s1 rest
                | NaicsNull \<Rightarrow> searchTerms w parentCode codes s1 rest
                | NaicsResult records \<Rightarrow>
                    (let codes' = childRecords parentCode codes records
                     in if codes' \<noteq> [] then (codes', s1)
                        else searchTerms w parentCode codes' s1 rest)))"

definition searchChildCodes ::
  "world \<Rightarrow> naics_state \<Rightarrow> string \<Rightarrow> NAICSCode list \<times> naics_state" where
  "searchChildCodes w s parentCode =
     (let (codes, s1) = searchTerms w parentCode [] s (searchStrategies parentCode)
      in if codes = [] then ([], s1) else (toCodes codes, s1))"

text \<open>
  \<open>searchChildCodes\<close> catches whatever is thrown inside its loop, so the \<open>catch\<close> of
  \<open>getChildCodes\<close>, which returns the empty \<open>getFallbackChildCodes\<close>, is never entered.
\<close>

definition getChildCodes ::
  "world \<Rightarrow> naics_state \<Rightarrow> string \<Rightarrow> NAICSCode list \<times> naics_state" where
  "getChildCodes w s parentCode =
     (let cacheKey = ''children-'' @ parentCode in
      case cache s cacheKey of
        Some cached \<Rightarrow> (cached, s)
      | None \<Rightarrow>
          (let (children, s1) = searchChildCodes w s parentCode
           in (children, s1\<lparr>cache := (cache s1)(cacheKey \<mapsto> children)\<rparr>)))"

text \<open>
  The cache is private to the service, and \<open>fetchNAICSCodes\<close> and \<open>getChildCodes\<close> are the
  only methods that touch it (\<open>get2DigitCodes\<close> and \<open>getCodeDescription\<close> go through
  \<open>fetchNAICSCodes\<close>). \<open>call\<close> is one call of either, in any world; the states the
  service can be in are those that calls lead to from the empty cache.
\<close>

inductive call :: "naics_state \<Rightarrow> naics_state \<Rightarrow> bool" where
  fetched: "call s (snd (fetchNAICSCodes w s year))"
| children: "call s (snd (getChildCodes w s parentCode))"

definition reachable :: "naics_state \<Rightarrow> bool" where
  "reachable s \<longleftrightarrow> call\<^sup>*\<^sup>* initial s"

section \<open>Drilling down\<close>

text \<open>The loop of \<open>fetchSubIndustries\<close> over the child codes.\<close>

fun childrenLoop ::
  "world \<Rightarrow> string \<Rightarrow> string \<Rightarrow> string \<Rightarrow> string \<Rightarrow> ProcessedEmployerData list
     \<Rightarrow> NAICSCode list \<Rightarrow> ProcessedEmployerData list" where
  "childrenLoop w apiKey state' county' originalZip results [] = results"
| "childrenLoop w apiKey state' county' originalZip results (childCode # rest) =
     (let childData = fetchCountySectorData w apiKey state' county' (code childCode) originalZip
      in childrenLoop w apiKey state' county' originalZip
           (results @ map (\<lambda>item. item\<lparr>level := Some (length (code childCode))\<rparr>) childData)
           rest)"

definition fetchSubIndustries ::
  "world \<Rightarrow> string \<Rightarrow> naics_state \<Rightarrow> string \<Rightarrow> string \<Rightarrow> string \<Rightarrow> string
     \<Rightarrow> ProcessedEmployerData list \<times> naics_state" where
  "fetchSubIndustries w apiKey s state' county' parentNaicsCode originalZip =
     (let (childCodes, s1) = getChildCodes w s parentNaicsCode in
      if childCodes = [] then ([], s1)
      else (sortByEmployees
              (filter hasData (childrenLoop w apiKey state' county' originalZip [] childCodes)),
            s1))"

text \<open>
  The results view, \<open>getStateCountyFromLocation\<close>: the state and county its Expand buttons
  hand to \<open>onExpandIndustry\<close>, which passes them on to \<open>fetchSubIndustries\<close>. The location
  argument is not read; the view's \<open>zipCode\<close> is looked up in a table of four ZIP codes,
  and \<open>{state: '25', county: '017'}\<close> is the default.
\<close>

definition zipToStateCounty :: "(string \<times> string \<times> string) list" where
  "zipToStateCounty =
     [(''02459'', (''25'', ''017'')),
      (''10001'', (''36'', ''061'')),
      (''90210'', (''06'', ''037'')),
      (''60601'', (''17'', ''031''))]"

definition getStateCountyFromLocation :: "string \<Rightarrow> string \<Rightarrow> string \<times> string" where
  "getStateCountyFromLocation zipCode location' =
     (case getProperty zipToStateCounty zipCode of
        Some (Own found) \<Rightarrow> found
      | Some (Inherited k) \<Rightarrow> (''undefined'', ''undefined'')
      | None \<Rightarrow> (''25'', ''017''))"

text \<open>
  \<open>handleExpandIndustry\<close>, expanding: the call of \<open>fetchSubIndustries\<close> it makes, with the
  application's \<open>currentZip\<close>. \<open>expandButton\<close> is the click on an Expand button of the
  results view, which is shown with \<open>zipCode = currentZip\<close>.
\<close>

definition handleExpandIndustry ::
  "world \<Rightarrow> string \<Rightarrow> naics_state \<Rightarrow> string \<Rightarrow> string \<Rightarrow> string \<Rightarrow> string
     \<Rightarrow> ProcessedEmployerData list \<times> naics_state" where
  "handleExpandIndustry w apiKey s currentZip naicsCode' state' county' =
     fetchSubIndustries w apiKey s state' county' naicsCode' currentZip"

definition expandButton ::
  "world \<Rightarrow> string \<Rightarrow> naics_state \<Rightarrow> string \<Rightarrow> string \<Rightarrow> string
     \<Rightarrow> ProcessedEmployerData list \<times> naics_state" where
  "expandButton w apiKey s zipCode location' naicsCode' =
     (let (state', county') = getStateCountyFromLocation zipCode location'
      in handleExpandIndustry w apiKey s zipCode naicsCode' state' county')"

section \<open>Invariants of the cache\<close>

text \<open>
  What is asked of the child codes of \<open>p\<close>: one digit longer than \<open>p\<close>, starting with \<open>p\<close>,
  digits only, without duplicates and in ascending order.
\<close>

definition childrenOf :: "string \<Rightarrow> NAICSCode list \<Rightarrow> bool" where
  "childrenOf p xs \<longleftrightarrow>
     (\<forall>x \<in> set xs. length (code x) = length p + 1 \<and> startsWith (code x) p \<and> allDigits (code x))
     \<and> distinct (map code xs) \<and> sorted (map code xs)"

definition cacheInv :: "naics_state \<Rightarrow> bool" where
  "cacheInv s \<longleftrightarrow>
     (\<forall>p xs. cache s (''children-'' @ p) = Some xs \<longrightarrow> childrenOf p xs)
     \<and> (\<forall>year xs. cache s (''all-'' @ year) = Some xs \<longrightarrow> xs \<noteq> [])"

section \<open>Two worlds to run the services in\<close>

text \<open>\<open>offline\<close>: every request fails.\<close>

definition offline :: world where
  "offline = \<lparr>census = (\<lambda>url. FetchFailed), hud = (\<lambda>url. FetchFailed),
              naics = (\<lambda>n request. FetchFailed)\<rparr>"

text \<open>
  \<open>boston\<close>: the HUD API knows ZIP 02115 (Suffolk County, 25/025). The census API has
  figures for sectors 11 and 62 and subsectors 621 and 622 of that county and its totals;
  it fails for sector 21, sends no JSON for sector 22 and a \<open>null\<close> row for sector 23 and
  for the totals of county 25/017, and an empty body for everything else. The NAICS API
  answers the search for 62.
\<close>

definition header :: row where
  "header = Cells [Some ''NAME'', Some ''NAICS2017_LABEL'', Some ''EMP'', Some ''ESTAB'',
                   Some ''PAYANN'', Some ''GEO_ID'']"

definition suffolk :: "string \<Rightarrow> string \<Rightarrow> string \<Rightarrow> string \<Rightarrow> row" where
  "suffolk label emp estab payann =
     Cells [Some ''Suffolk County, Massachusetts'', Some label, Some emp, Some estab,
            Some payann, Some ''0500000US25025'']"

definition boston :: world where
  "boston =
     \<lparr>census = (\<lambda>url.
         if url = sectorUrl ''k'' ''25'' ''025'' ''11''
           then Response 200 (Rows [header, suffolk ''Agriculture'' ''50'' ''7'' ''900''])
         else if url = sectorUrl ''k'' ''25'' ''025'' ''62''
           then Response 200 (Rows [header, suffolk ''Health care'' ''120000'' ''3000'' ''9000000''])
         else if url = sectorUrl ''k'' ''25'' ''025'' ''621''
           then Response 200 (Rows [header, suffolk ''Ambulatory care'' ''40000'' ''2500'' ''D''])
         else if url = sectorUrl ''k'' ''25'' ''025'' ''622''
           then Response 200 (Rows [header, suffolk ''Hospitals'' ''70000'' ''20'' ''6000000''])
         else if url = sectorUrl ''k'' ''25'' ''025'' ''21''
           then Response 500 Blank
         else if url = sectorUrl ''k'' ''25'' ''025'' ''22''
           then Response 200 Malformed
         else if url = sectorUrl ''k'' ''25'' ''025'' ''23''
           then Response 200 (Rows [header, suffolk ''Construction'' ''900'' ''80'' ''70000'', NullRow])
         else if url = totalsUrl ''k'' ''25'' ''025''
           then Response 200
                  (Rows [header,
                         Cells [Some ''Suffolk County, Massachusetts'', Some ''600000'',
                                Some ''20000'', Some ''50000000'']])
         else if url = totalsUrl ''k'' ''25'' ''017''
           then Response 200 (Rows [header, NullRow])
         else Response 204 Blank),
      hud = (\<lambda>url.
         if url = hudUrl ''02115''
           then Response 200
                  (HudFirst \<lparr>geoid = Some ''25025'', county_name = ''Suffolk County'',
                             state_name = ''MA''\<rparr>)
         else Response 200 HudNoResult),
      naics = (\<lambda>n request.
         if request = ProxySearch ''2022'' ''62''
           then Response 200
                  (NaicsResult
                     [Some \<lparr>rec_code = None, rec_naics22 = Some ''622 '', rec_title = Some ''Hospitals'',
                            rec_index_desc = None, rec_description = None\<rparr>,
                      None,
                      Some \<lparr>rec_code = Some ''621'', rec_naics22 = None, rec_title = None,
                            rec_index_desc = Some ''Ambulatory Health Care Services'',
                            rec_description = None\<rparr>,
                      Some \<lparr>rec_code = None, rec_naics22 = Some ''62'', rec_title = Some ''Health Care'',
                            rec_index_desc = None, rec_description = None\<rparr>,
                      Some \<lparr>rec_code = None, rec_naics22 = Some ''622'', rec_title = Some ''Again'',
                            rec_index_desc = None, rec_description = None\<rparr>])
         else FetchFailed)\<rparr>"

text \<open>The items the services build from \<open>boston\<close>'s census figures.\<close>

definition suffolkItem ::
  "string \<Rightarrow> int \<Rightarrow> int \<Rightarrow> int \<Rightarrow> string \<Rightarrow> ProcessedEmployerData" where
  "suffolkItem label emp est pay naicsCode' =
     \<lparr>industry = label, employees = emp, establishments = est, payroll = pay,
      naicsCode = naicsCode', location = ''Suffolk County, Massachusetts'',
      geoId = ''0500000US25025'', countyTotalEmployees = None,
      countyTotalEstablishments = None, countyTotalPayroll = None,
      level = Some (length naicsCode')\<rparr>"

definition suffolkCounty :: County where
  "suffolkCounty = \<lparr>state = ''25'', county = ''025'', name = ''Suffolk County, MA''\<rparr>"



section \<open>Properties\<close>

subsection \<open>The cache and the child codes\<close>

lemma naicsFetch_cache: "cache (snd (naicsFetch w s rq)) = cache s"
  by (simp add: naicsFetch_def)

lemma sweepSeeds_cache: "cache (snd (sweepSeeds w year codes s sds)) = cache s"
proof (induction sds arbitrary: codes s)
  case Nil
  then show ?case by simp
next
  case (Cons seed rest)
  show ?case
    by (cases "naics w (length (requests s)) (Search year seed)")
       (simp_all add: naicsFetch_def Cons.IH split: naics_body.split)
qed

lemma searchTerms_cache: "cache (snd (searchTerms w p codes s ts)) = cache s"
proof (induction ts arbitrary: codes s)
  case Nil
  then show ?case by simp
next
  case (Cons t rest)
  show ?case
    by (cases "naics w (length (requests s)) (ProxySearch ''2022'' t)")
       (simp_all add: naicsFetch_def Cons.IH Let_def split: naics_body.split)
qed

lemma tryChartMethod_cache: "cache (snd (tryChartMethod w s year)) = cache s"
  by (cases "naics w (length (requests s)) (Chart year)")
     (simp_all add: tryChartMethod_def naicsFetch_def split: naics_body.split)

lemma sweepSearchMethod_cache: "cache (snd (sweepSearchMethod w s year)) = cache s"
  using sweepSeeds_cache [of w year "[]" s seeds]
  by (cases "sweepSeeds w year [] s seeds") (simp add: sweepSearchMethod_def)

lemma searchChildCodes_cache: "cache (snd (searchChildCodes w s p)) = cache s"
  using searchTerms_cache [of w p "[]" s "searchStrategies p"]
  by (cases "searchTerms w p [] s (searchStrategies p)") (simp add: searchChildCodes_def)

lemma childRecords_keys:
  assumes "\<forall>c \<in> fst ` set codes. length c = length p + 1 \<and> startsWith c p \<and> allDigits c"
    and "distinct (map fst codes)"
  shows "(\<forall>c \<in> fst ` set (childRecords p codes recs).
            length c = length p + 1 \<and> startsWith c p \<and> allDigits c)
         \<and> distinct (map fst (childRecords p codes recs))"
  using assms
proof (induction recs arbitrary: codes)
  case Nil
  then show ?case by simp
next
  case (Cons r recs)
  show ?case
  proof (cases r)
    case None
    then show ?thesis using Cons.IH [OF Cons.prems] by simp
  next
    case (Some rcd)
    define c where "c = trim (textOf (orElse (rec_naics22 rcd) (orElse (rec_code rcd) (Some []))))"
    define t where "t = trim (textOf (orElse (rec_title rcd)
                (orElse (rec_index_desc rcd) (orElse (rec_description rcd) (Some [])))))"
    show ?thesis
    proof (cases "length c = length p + 1 \<and> startsWith c p \<and> allDigits c \<and> \<not> mapHas codes c")
      case True
      let ?codes = "codes @ [(c, if t \<noteq> [] then t else ''NAICS '' @ c)]"
      have 1: "\<forall>c \<in> fst ` set ?codes. length c = length p + 1 \<and> startsWith c p \<and> allDigits c"
        using Cons.prems(1) True by auto
      have 2: "distinct (map fst ?codes)"
        using Cons.prems(2) True by (auto simp: mapHas_def)
      have "childRecords p codes (r # recs) = childRecords p ?codes recs"
        using True Some by (simp add: c_def t_def Let_def)
      then show ?thesis using Cons.IH [OF 1 2] by simp
    next
      case False
      have "childRecords p codes (r # recs) = childRecords p codes recs"
        using False Some by (auto simp add: c_def t_def Let_def)
      then show ?thesis using Cons.IH [OF Cons.prems] by simp
    qed
  qed
qed

lemma searchTerms_keys:
  assumes "\<forall>c \<in> fst ` set codes. length c = length p + 1 \<and> startsWith c p \<and> allDigits c"
    and "distinct (map fst codes)"
  shows "(\<forall>c \<in> fst ` set (fst (searchTerms w p codes s ts)).
            length c = length p + 1 \<and> startsWith c p \<and> allDigits c)
         \<and> distinct (map fst (fst (searchTerms w p codes s ts)))"
  using assms
proof (induction ts arbitrary: codes s)
  case Nil
  then show ?case by simp
next
  case (Cons t rest)
  let ?s1 = "s\<lparr>requests := requests s @ [ProxySearch ''2022'' t]\<rparr>"
  note IH = Cons.IH [OF Cons.prems]
  show ?case
  proof (cases "naics w (length (requests s)) (ProxySearch ''2022'' t)")
    case FetchFailed
    then show ?thesis using IH [of ?s1] by (simp add: naicsFetch_def)
  next
    case (Response status body)
    show ?thesis
    proof (cases "ok status")
      case False
      then show ?thesis using Response IH [of ?s1] by (simp add: naicsFetch_def)
    next
      case True
      show ?thesis
      proof (cases body)
        case NaicsMalformed
        then show ?thesis using True Response IH [of ?s1] by (simp add: naicsFetch_def)
      next
        case NaicsNull
        then show ?thesis using True Response IH [of ?s1] by (simp add: naicsFetch_def)
      next
        case (NaicsResult records)
        note ck = childRecords_keys [OF Cons.prems, of records]
        show ?thesis
        proof (cases "childRecords p codes records = []")
          case True
          then show ?thesis
            using \<open>ok status\<close> Response NaicsResult Cons.IH [of "[]" ?s1]
            by (simp add: naicsFetch_def)
        next
          case False
          then show ?thesis
            using \<open>ok status\<close> Response NaicsResult ck
            by (simp add: naicsFetch_def)
        qed
      qed
    qed
  qed
qed


lemma distinct_map_sort_key: "distinct (map f (sort_key f xs)) = distinct (map f xs)"
  by (induction xs) (simp_all add: distinct_insort_key)

lemma map_code_toCodes: "map code (toCodes codes) = map fst (sort_key fst codes)"
  by (simp add: toCodes_def case_prod_unfold comp_def)

lemma toCodes_properties:
  assumes "\<forall>c \<in> fst ` set codes. P c" and "distinct (map fst codes)"
  shows "(\<forall>x \<in> set (toCodes codes). P (code x))
         \<and> distinct (map code (toCodes codes)) \<and> sorted (map code (toCodes codes))"
proof -
  have eq: "set (map code (toCodes codes)) = fst ` set codes"
    by (simp add: map_code_toCodes)
  have "\<forall>x \<in> set (toCodes codes). P (code x)"
  proof
    fix x assume "x \<in> set (toCodes codes)"
    then have "code x \<in> set (map code (toCodes codes))" by simp
    then have "code x \<in> fst ` set codes" using eq by simp
    then show "P (code x)" using assms(1) by blast
  qed
  moreover have "distinct (map code (toCodes codes))"
    using assms(2) by (simp add: map_code_toCodes distinct_map_sort_key)
  moreover have "sorted (map code (toCodes codes))"
    by (simp add: map_code_toCodes)
  ultimately show ?thesis by simp
qed

lemma searchChildCodes_children: "childrenOf p (fst (searchChildCodes w s p))"
proof -
  obtain codes s1 where st: "searchTerms w p [] s (searchStrategies p) = (codes, s1)"
    by (cases "searchTerms w p [] s (searchStrategies p)")
  have keys: "(\<forall>c \<in> fst ` set codes. length c = length p + 1 \<and> startsWith c p \<and> allDigits c)
         \<and> distinct (map fst codes)"
    using searchTerms_keys [of "[]" p w s "searchStrategies p"] st by simp
  show ?thesis
  proof (cases "codes = []")
    case True
    then show ?thesis using st by (simp add: searchChildCodes_def childrenOf_def)
  next
    case False
    have "childrenOf p (toCodes codes)"
      unfolding childrenOf_def
      using toCodes_properties [of codes "\<lambda>c. length c = length p + 1 \<and> startsWith c p \<and> allDigits c"] keys
      by blast
    then show ?thesis using False st by (simp add: searchChildCodes_def)
  qed
qed

lemma fetchNAICSCodes_nonempty_miss:
  "cache s (''all-'' @ year) = None \<Longrightarrow> fst (fetchNAICSCodes w s year) \<noteq> []"
  by (simp add: fetchNAICSCodes_def getFallbackNAICSCodes_def Let_def split: prod.split)

lemma fetchNAICSCodes_cache:
  "cache (snd (fetchNAICSCodes w s year)) =
     (case cache s (''all-'' @ year) of Some v \<Rightarrow> cache s
      | None \<Rightarrow> (cache s)(''all-'' @ year \<mapsto> fst (fetchNAICSCodes w s year)))"
proof (cases "cache s (''all-'' @ year)")
  case None
  obtain chart s1 where c: "tryChartMethod w s year = (chart, s1)"
    by (cases "tryChartMethod w s year")
  obtain swept s2 where sw: "sweepSearchMethod w s1 year = (swept, s2)"
    by (cases "sweepSearchMethod w s1 year")
  have c1: "cache s1 = cache s" using tryChartMethod_cache [of w s year] c by simp
  have c2: "cache s2 = cache s1" using sweepSearchMethod_cache [of w s1 year] sw by simp
  show ?thesis using None c sw c1 c2
    by (simp add: fetchNAICSCodes_def Let_def)
next
  case (Some v)
  then show ?thesis by (simp add: fetchNAICSCodes_def)
qed

lemma getChildCodes_cache:
  "cache (snd (getChildCodes w s p)) =
     (case cache s (''children-'' @ p) of Some v \<Rightarrow> cache s
      | None \<Rightarrow> (cache s)(''children-'' @ p \<mapsto> fst (getChildCodes w s p)))"
proof (cases "cache s (''children-'' @ p)")
  case None
  obtain children s1 where c: "searchChildCodes w s p = (children, s1)"
    by (cases "searchChildCodes w s p")
  have c1: "cache s1 = cache s" using searchChildCodes_cache [of w s p] c by simp
  show ?thesis using None c c1
    by (simp add: getChildCodes_def Let_def)
next
  case (Some v)
  then show ?thesis by (simp add: getChildCodes_def)
qed

lemma getChildCodes_miss:
  "cache s (''children-'' @ p) = None \<Longrightarrow> fst (getChildCodes w s p) = fst (searchChildCodes w s p)"
  by (cases "searchChildCodes w s p") (simp add: getChildCodes_def)

lemma call_cacheInv:
  assumes "call s s'" and "cacheInv s"
  shows "cacheInv s'"
  using assms
proof (induction rule: call.induct)
  case (fetched s w year)
  show ?case
  proof (cases "cache s (''all-'' @ year)")
    case None
    then show ?thesis
      using fetched fetchNAICSCodes_nonempty_miss [OF None, of w]
      by (auto simp: cacheInv_def fetchNAICSCodes_cache)
  next
    case (Some v)
    then show ?thesis using fetched by (simp add: cacheInv_def fetchNAICSCodes_cache)
  qed
next
  case (children s w p)
  show ?case
  proof (cases "cache s (''children-'' @ p)")
    case None
    then show ?thesis
      using children searchChildCodes_children [of p w s] getChildCodes_miss [OF None, of w]
      by (auto simp: cacheInv_def getChildCodes_cache)
  next
    case (Some v)
    then show ?thesis using children by (simp add: cacheInv_def getChildCodes_cache)
  qed
qed

lemma reachable_cacheInv: "reachable s \<Longrightarrow> cacheInv s"
  unfolding reachable_def
proof (induction rule: rtranclp_induct)
  case base
  show ?case by (simp add: cacheInv_def initial_def)
next
  case (step y z)
  then show ?case using call_cacheInv by blast
qed

lemma getChildCodes_children:
  assumes "reachable s"
  shows "childrenOf p (fst (getChildCodes w s p))"
proof (cases "cache s (''children-'' @ p)")
  case None
  then show ?thesis using searchChildCodes_children [of p w s] getChildCodes_miss [OF None, of w] by simp
next
  case (Some v)
  then show ?thesis using reachable_cacheInv [OF assms] by (simp add: getChildCodes_def cacheInv_def)
qed

subsection \<open>Sector data\<close>

lemma sectorRows_items:
  assumes "sectorRows c acc rows = Inr res"
    and "\<forall>x \<in> set acc. hasData x \<and> naicsCode x = c \<and> level x = Some (length c)"
  shows "\<forall>x \<in> set res. hasData x \<and> naicsCode x = c \<and> level x = Some (length c)"
  using assms
proof (induction c acc rows rule: sectorRows.induct)
  case (1 c acc)
  then show ?case by simp
next
  case (2 c acc rows)
  then show ?case by simp
next
  case (3 c acc cs rows)
  show ?case
  proof (cases "parseEmployeeCount (cell cs 2) > 0 \<or> parseEmployeeCount (cell cs 3) > 0
                 \<or> parsePayroll (cell cs 4) > 0")
    case True
    then show ?thesis
      using "3.IH"(1) [OF refl refl refl True] "3.prems"
      by (simp add: hasData_def)
  next
    case False
    then show ?thesis
      using "3.IH"(2) [OF refl refl refl False] "3.prems"
      by simp
  qed
qed

lemma fetchCountySectorData_items:
  "\<forall>x \<in> set (fetchCountySectorData w k st co c z).
     hasData x \<and> naicsCode x = c \<and> level x = Some (length c)"
proof (cases "census w (sectorUrl k st co c)")
  case FetchFailed
  then show ?thesis by (simp add: fetchCountySectorData_def)
next
  case (Response status body)
  show ?thesis
  proof (cases body)
    case (Rows data)
    show ?thesis
    proof (cases "sectorRows c [] (tl data)")
      case (Inl e)
      then show ?thesis using Response Rows by (simp add: fetchCountySectorData_def)
    next
      case (Inr res)
      then show ?thesis
        using Response Rows sectorRows_items [OF Inr]
        by (simp add: fetchCountySectorData_def)
    qed
  qed (simp_all add: Response fetchCountySectorData_def)
qed

lemma set_sectorsLoop:
  "set (sectorsLoop w k st co z acc cs) =
     set acc \<union> (\<Union>c \<in> set cs. set (fetchCountySectorData w k st co c z))"
  by (induction cs arbitrary: acc) auto

lemma set_childrenLoop:
  "set (childrenLoop w k st co z acc xs) =
     set acc \<union> (\<Union>ch \<in> set xs. (\<lambda>item. item\<lparr>level := Some (length (code ch))\<rparr>)
                                  ` set (fetchCountySectorData w k st co (code ch) z))"
  by (induction xs arbitrary: acc) (auto simp: Let_def)

lemma set_sortByEmployees: "set (sortByEmployees xs) = set xs"
  by (simp add: sortByEmployees_def)

lemma sorted_sortByEmployees:
  "sorted_wrt (\<lambda>a b. employees a \<ge> employees b) (sortByEmployees xs)"
proof -
  have "sorted (map (\<lambda>item. - employees item) (sortByEmployees xs))"
    unfolding sortByEmployees_def by (rule sorted_sort_key)
  then show ?thesis by (simp add: sorted_map)
qed

lemma set_fetchEmploymentByCounty:
  "set (fetchEmploymentByCounty w k st co z) =
     (\<Union>c \<in> set naicsCodes. set (fetchCountySectorData w k st co c z))"
  using fetchCountySectorData_items [of w k st co _ z]
  by (auto simp: fetchEmploymentByCounty_def set_sortByEmployees set_sectorsLoop)

lemma set_fetchSubIndustries:
  "set (fst (fetchSubIndustries w k s st co p z)) =
     (\<Union>ch \<in> set (fst (getChildCodes w s p)).
        (\<lambda>item. item\<lparr>level := Some (length (code ch))\<rparr>)
          ` set (fetchCountySectorData w k st co (code ch) z))"
proof -
  obtain xs s1 where g: "getChildCodes w s p = (xs, s1)" by (cases "getChildCodes w s p")
  show ?thesis
  proof (cases "xs = []")
    case True
    then show ?thesis using g by (simp add: fetchSubIndustries_def)
  next
    case False
    have "\<And>ch x. x \<in> set (fetchCountySectorData w k st co (code ch) z) \<Longrightarrow>
            hasData (x\<lparr>level := Some (length (code ch))\<rparr>)"
      using fetchCountySectorData_items [of w k st co _ z] by (simp add: hasData_def)
    then show ?thesis using g False
      by (auto simp: fetchSubIndustries_def set_sortByEmployees set_childrenLoop)
  qed
qed

subsection \<open>Cached entries stay, failing requests leave nothing\<close>

lemma reachable_initial: "reachable initial"
  by (simp add: reachable_def)





lemma sectorRows_NullRow: "NullRow \<in> set rows \<Longrightarrow> sectorRows c acc rows = Inl TypeError"
proof (induction c acc rows rule: sectorRows.induct)
  case (1 c acc)
  then show ?case by simp
next
  case (2 c acc rows)
  then show ?case by simp
next
  case (3 c acc cs rows)
  then show ?case by (simp add: Let_def)
qed

lemma searchTerms_failing:
  assumes "\<forall>n rq. naics w n rq = FetchFailed
             \<or> (\<exists>status body. naics w n rq = Response status body
                   \<and> (\<not> ok status \<or> body = NaicsMalformed \<or> body = NaicsNull))"
  shows "fst (searchTerms w p codes s ts) = codes"
proof (induction ts arbitrary: s)
  case Nil
  then show ?case by simp
next
  case (Cons t rest)
  let ?r = "naics w (length (requests s)) (ProxySearch ''2022'' t)"
  from assms have "?r = FetchFailed
      \<or> (\<exists>status body. ?r = Response status body
            \<and> (\<not> ok status \<or> body = NaicsMalformed \<or> body = NaicsNull))"
    by blast
  then show ?case
    using Cons.IH by (auto simp: naicsFetch_def)
qed

lemma fetchSubIndustries_no_children:
  "fst (getChildCodes w s p) = [] \<Longrightarrow> fst (fetchSubIndustries w k s st co p z) = []"
  by (cases "getChildCodes w s p") (simp add: fetchSubIndustries_def)

lemma digits_not_inherited: "list_all isDigit z \<Longrightarrow> z \<notin> set objectPrototypeKeys"
  by (auto simp: objectPrototypeKeys_def isDigit_def)

subsection \<open>The services in the two worlds\<close>

lemmas cell_parsing = cell_def parseEmployeeCount_def parsePayroll_def parseInt_def isWhiteSpace_def
  isDigit_def digitValue_def orDefault_def

lemmas boston_census = boston_def sectorUrl_def totalsUrl_def BASE_URL_def ok_def header_def
  suffolk_def suffolkItem_def

lemma boston_sector_11:
  "fetchCountySectorData boston ''k'' ''25'' ''025'' ''11'' z =
     [suffolkItem ''Agriculture'' 50 7 900000 ''11'']"
  by (simp add: fetchCountySectorData_def boston_census cell_parsing)

lemma boston_sector_62:
  "fetchCountySectorData boston ''k'' ''25'' ''025'' ''62'' z =
     [suffolkItem ''Health care'' 120000 3000 9000000000 ''62'']"
  by (simp add: fetchCountySectorData_def boston_census cell_parsing)

lemma boston_sector_621:
  "fetchCountySectorData boston ''k'' ''25'' ''025'' ''621'' z =
     [suffolkItem ''Ambulatory care'' 40000 2500 0 ''621'']"
  by (simp add: fetchCountySectorData_def boston_census cell_parsing)

lemma boston_sector_622:
  "fetchCountySectorData boston ''k'' ''25'' ''025'' ''622'' z =
     [suffolkItem ''Hospitals'' 70000 20 6000000000 ''622'']"
  by (simp add: fetchCountySectorData_def boston_census cell_parsing)

lemma boston_sector_other:
  "c \<notin> {''11'', ''62'', ''621'', ''622''} \<Longrightarrow>
   fetchCountySectorData boston ''k'' ''25'' ''025'' c z = []"
  by (simp add: fetchCountySectorData_def boston_census cell_parsing)

lemma boston_other_county: "fetchCountySectorData boston ''k'' ''25'' ''017'' c z = []"
  by (simp add: fetchCountySectorData_def boston_census)

lemma boston_sectors:
  "fetchEmploymentByCounty boston ''k'' ''25'' ''025'' z =
     [suffolkItem ''Health care'' 120000 3000 9000000000 ''62'',
      suffolkItem ''Agriculture'' 50 7 900000 ''11'']"
  by (simp add: fetchEmploymentByCounty_def naicsCodes_def boston_sector_62 boston_sector_11
      boston_sector_other hasData_def sortByEmployees_def suffolkItem_def)

lemma boston_totals:
  "fetchCountyTotals boston ''k'' ''25'' ''025'' z =
     \<lparr>totalEmployees = 600000, totalEstablishments = 20000, totalPayroll = 50000000000\<rparr>"
  by (simp add: fetchCountyTotals_def boston_census cell_parsing)

lemma boston_children:
  "fst (getChildCodes boston initial ''62'') =
     [\<lparr>code = ''621'', title = ''Ambulatory Health Care Services''\<rparr>,
      \<lparr>code = ''622'', title = ''Hospitals''\<rparr>]"
  by code_simp

lemma boston_subsectors:
  "fst (fetchSubIndustries boston ''k'' initial ''25'' ''025'' ''62'' z) =
     [suffolkItem ''Hospitals'' 70000 20 6000000000 ''622'',
      suffolkItem ''Ambulatory care'' 40000 2500 0 ''621'']"
proof -
  obtain s1 where "getChildCodes boston initial ''62'' =
     ([\<lparr>code = ''621'', title = ''Ambulatory Health Care Services''\<rparr>,
       \<lparr>code = ''622'', title = ''Hospitals''\<rparr>], s1)"
    using boston_children by (cases "getChildCodes boston initial ''62''") simp
  then show ?thesis
    by (simp add: fetchSubIndustries_def boston_sector_621 boston_sector_622 hasData_def
        sortByEmployees_def suffolkItem_def)
qed

lemma boston_subsectors_other_county:
  "fst (fetchSubIndustries boston ''k'' initial ''25'' ''017'' ''62'' z) = []"
proof -
  obtain s1 where "getChildCodes boston initial ''62'' =
     ([\<lparr>code = ''621'', title = ''Ambulatory Health Care Services''\<rparr>,
       \<lparr>code = ''622'', title = ''Hospitals''\<rparr>], s1)"
    using boston_children by (cases "getChildCodes boston initial ''62''") simp
  then show ?thesis
    by (simp add: fetchSubIndustries_def boston_other_county sortByEmployees_def)
qed

lemma boston_hud:
  "hud boston (hudUrl (normalizeZip ''02115'')) =
     Response 200 (HudFirst \<lparr>geoid = Some ''25025'', county_name = ''Suffolk County'',
                             state_name = ''MA''\<rparr>)"
  by (simp add: boston_def normalizeZip_def isDigit_def)

lemma offline_hud: "countyFromZip_viaHUD offline z = Inl NetworkError"
  by (simp add: countyFromZip_viaHUD_def offline_def)

lemma fallback_02115: "map_of zipToCounty ''02115'' = Some suffolkCounty"
  by (simp add: zipToCounty_def suffolkCounty_def)

lemma fallback_99999: "map_of zipToCounty ''99999'' = None"
  by (simp add: zipToCounty_def)

lemma boston_county: "getCountyFromZip boston ''02115'' = Some (Own suffolkCounty)"
  using boston_hud
  by (simp add: getCountyFromZip_def countyFromZip_viaHUD_def ok_def suffolkCounty_def)

lemma offline_county: "getCountyFromZip offline ''02115'' = Some (Own suffolkCounty)"
  by (simp add: getCountyFromZip_def offline_hud getCountyFallback_def getProperty_def fallback_02115)

lemma view_02115:
  "getStateCountyFromLocation ''02115'' ''Suffolk County, Massachusetts'' = (''25'', ''017'')"
  by (simp add: getStateCountyFromLocation_def getProperty_def zipToStateCounty_def
      objectPrototypeKeys_def)

lemma boston_census_21: "census boston (sectorUrl ''k'' ''25'' ''025'' ''21'') = Response 500 Blank"
  by (simp add: boston_census)

lemma boston_census_22: "census boston (sectorUrl ''k'' ''25'' ''025'' ''22'') = Response 200 Malformed"
  by (simp add: boston_census)

lemma boston_census_23:
  "census boston (sectorUrl ''k'' ''25'' ''025'' ''23'') =
     Response 200 (Rows [header, suffolk ''Construction'' ''900'' ''80'' ''70000'', NullRow])"
  by (simp add: boston_def sectorUrl_def totalsUrl_def BASE_URL_def)

lemma boston_census_99: "census boston (sectorUrl ''k'' ''25'' ''025'' ''99'') = Response 204 Blank"
  by (simp add: boston_census)

lemma boston_census_totals_017:
  "census boston (totalsUrl ''k'' ''25'' ''017'') = Response 200 (Rows [header, NullRow])"
  by (simp add: boston_def sectorUrl_def totalsUrl_def BASE_URL_def)

lemma offline_chart: "tryChartMethod offline initial ''2022'' = ([], initial\<lparr>requests := [Chart ''2022'']\<rparr>)"
  by (simp add: tryChartMethod_def naicsFetch_def offline_def initial_def)

lemma offline_sweepSeeds: "fst (sweepSeeds offline year codes s sds) = codes"
  by (induction sds arbitrary: s) (simp_all add: naicsFetch_def offline_def)

lemma offline_sweep: "fst (sweepSearchMethod offline s ''2022'') = []"
  using offline_sweepSeeds [of "''2022''" "[]" s seeds]
  by (cases "sweepSeeds offline ''2022'' [] s seeds") (simp add: sweepSearchMethod_def toCodes_def)



section \<open>The claims\<close>

text \<open>
  C1. The state and county the Expand buttons pass to \<open>fetchSubIndustries\<close> should be those
  of the county found for the searched ZIP code. They are not: for ZIP 02115 the search
  finds Suffolk County (25/025), from the HUD API and from the static table alike, and
  drilling down there into sector 62 gives two subsectors; the view looks the ZIP code up
  in its own table of four, falls back to 25/017 and asks for that county instead, which
  in this world has no data.
\<close>

theorem expand_asks_for_the_default_county:
  "getCountyFromZip boston ''02115'' = Some (Own suffolkCounty)
   \<and> getCountyFromZip offline ''02115'' = Some (Own suffolkCounty)
   \<and> state suffolkCounty = ''25'' \<and> county suffolkCounty = ''025''
   \<and> fst (fetchSubIndustries boston ''k'' initial ''25'' ''025'' ''62'' ''02115'') =
       [suffolkItem ''Hospitals'' 70000 20 6000000000 ''622'',
        suffolkItem ''Ambulatory care'' 40000 2500 0 ''621'']
   \<and> getStateCountyFromLocation ''02115'' ''Suffolk County, Massachusetts'' = (''25'', ''017'')
   \<and> expandButton boston ''k'' initial ''02115'' ''Suffolk County, Massachusetts'' ''62'' =
       fetchSubIndustries boston ''k'' initial ''25'' ''017'' ''62'' ''02115''
   \<and> fst (expandButton boston ''k'' initial ''02115'' ''Suffolk County, Massachusetts'' ''62'') = []"
  by (simp add: boston_county offline_county boston_subsectors view_02115 expandButton_def
      handleExpandIndustry_def boston_subsectors_other_county suffolkCounty_def)

text \<open>
  C2. When a county is found for the ZIP code, \<open>fetchEmploymentDataForZip\<close> returns the
  list of \<open>fetchEmploymentByCounty\<close> for that county, each element with the three county
  totals of \<open>fetchCountyTotals\<close> for that county set and nothing else changed.
\<close>

theorem zip_data_carries_county_totals:
  assumes "getCountyFromZip w zipCode = Some found"
  shows "fetchEmploymentDataForZip w apiKey zipCode =
           Inr (map (\<lambda>sector. sector
                       \<lparr>countyTotalEmployees := Some (totalEmployees
                           (fetchCountyTotals w apiKey (stateOf found) (countyOf found) zipCode)),
                        countyTotalEstablishments := Some (totalEstablishments
                           (fetchCountyTotals w apiKey (stateOf found) (countyOf found) zipCode)),
                        countyTotalPayroll := Some (totalPayroll
                           (fetchCountyTotals w apiKey (stateOf found) (countyOf found) zipCode))\<rparr>)
                  (fetchEmploymentByCounty w apiKey (stateOf found) (countyOf found) zipCode))"
  using assms by (simp add: fetchEmploymentDataForZip_def addCountyTotals_def Let_def)

theorem zip_data_carries_county_totals_witness:
  "getCountyFromZip boston ''02115'' = Some (Own suffolkCounty)
   \<and> fetchCountyTotals boston ''k'' ''25'' ''025'' ''02115'' =
       \<lparr>totalEmployees = 600000, totalEstablishments = 20000, totalPayroll = 50000000000\<rparr>
   \<and> fetchEmploymentByCounty boston ''k'' ''25'' ''025'' ''02115'' =
       [suffolkItem ''Health care'' 120000 3000 9000000000 ''62'',
        suffolkItem ''Agriculture'' 50 7 900000 ''11'']
   \<and> fetchEmploymentDataForZip boston ''k'' ''02115'' =
       Inr [(suffolkItem ''Health care'' 120000 3000 9000000000 ''62'')
              \<lparr>countyTotalEmployees := Some 600000, countyTotalEstablishments := Some 20000,
               countyTotalPayroll := Some 50000000000\<rparr>,
            (suffolkItem ''Agriculture'' 50 7 900000 ''11'')
              \<lparr>countyTotalEmployees := Some 600000, countyTotalEstablishments := Some 20000,
               countyTotalPayroll := Some 50000000000\<rparr>]"
  using zip_data_carries_county_totals [OF boston_county, of "''k''"]
  by (simp add: boston_county boston_totals boston_sectors suffolkCounty_def)

text \<open>
  C3. \<open>getCountyFromZip\<close> returns the county of the HUD lookup when that succeeds, which
  it does when the first result has a five-character geoid; when the lookup throws, it
  returns the entry of the static table for the ZIP code; when the table has none, it
  returns \<open>null\<close>, and \<open>fetchEmploymentDataForZip\<close> throws an \<open>ApiError\<close>. The last step is
  for every string that is not the name of a property all objects inherit, so for every
  string of digits.
\<close>

theorem county_resolution_order:
  "(countyFromZip_viaHUD w zipCode = Inr found
      \<longrightarrow> getCountyFromZip w zipCode = Some (Own found))
   \<and> (hud w (hudUrl (normalizeZip zipCode)) = Response status (HudFirst r) \<and> ok status
        \<and> geoid r = Some g \<and> length g = 5
      \<longrightarrow> getCountyFromZip w zipCode =
            Some (Own \<lparr>state = take 2 g, county = take 3 (drop 2 g),
                        name = county_name r @ '', '' @ state_name r\<rparr>))
   \<and> (countyFromZip_viaHUD w zipCode = Inl e \<and> map_of zipToCounty zipCode = Some entry
      \<longrightarrow> getCountyFromZip w zipCode = Some (Own entry))
   \<and> (countyFromZip_viaHUD w zipCode = Inl e \<and> map_of zipToCounty zipCode = None
        \<and> zipCode \<notin> set objectPrototypeKeys
      \<longrightarrow> getCountyFromZip w zipCode = None)
   \<and> (getCountyFromZip w zipCode = None
      \<longrightarrow> fetchEmploymentDataForZip w apiKey zipCode =
            Inl (ApiError (''Failed to fetch employment data: Could not find county for ZIP code ''
                   @ zipCode)))
   \<and> (list_all isDigit zipCode \<longrightarrow> zipCode \<notin> set objectPrototypeKeys)"
proof (intro conjI impI)
  assume "countyFromZip_viaHUD w zipCode = Inr found"
  then show "getCountyFromZip w zipCode = Some (Own found)"
    by (simp add: getCountyFromZip_def)
next
  assume "hud w (hudUrl (normalizeZip zipCode)) = Response status (HudFirst r) \<and> ok status
        \<and> geoid r = Some g \<and> length g = 5"
  then show "getCountyFromZip w zipCode =
            Some (Own \<lparr>state = take 2 g, county = take 3 (drop 2 g),
                        name = county_name r @ '', '' @ state_name r\<rparr>)"
    by (simp add: getCountyFromZip_def countyFromZip_viaHUD_def)
next
  assume "countyFromZip_viaHUD w zipCode = Inl e \<and> map_of zipToCounty zipCode = Some entry"
  then show "getCountyFromZip w zipCode = Some (Own entry)"
    by (simp add: getCountyFromZip_def getCountyFallback_def getProperty_def)
next
  assume "countyFromZip_viaHUD w zipCode = Inl e \<and> map_of zipToCounty zipCode = None
        \<and> zipCode \<notin> set objectPrototypeKeys"
  then show "getCountyFromZip w zipCode = None"
    by (simp add: getCountyFromZip_def getCountyFallback_def getProperty_def)
next
  assume "getCountyFromZip w zipCode = None"
  then show "fetchEmploymentDataForZip w apiKey zipCode =
            Inl (ApiError (''Failed to fetch employment data: Could not find county for ZIP code ''
                   @ zipCode))"
    by (simp add: fetchEmploymentDataForZip_def)
next
  assume "list_all isDigit zipCode"
  then show "zipCode \<notin> set objectPrototypeKeys" by (rule digits_not_inherited)
qed

theorem county_resolution_order_witness:
  "getCountyFromZip boston ''02115'' =
     Some (Own suffolkCounty)
   \<and> getCountyFromZip offline ''02115'' =
     Some (Own suffolkCounty)
   \<and> getCountyFromZip offline ''99999'' = None
   \<and> fetchEmploymentDataForZip offline ''k'' ''99999'' =
       Inl (ApiError ''Failed to fetch employment data: Could not find county for ZIP code 99999'')"
proof -
  have 1: "getCountyFromZip boston ''02115'' =
     Some (Own suffolkCounty)"
    using county_resolution_order [where w = boston and zipCode = "''02115''" and status = 200
        and r = "\<lparr>geoid = Some ''25025'', county_name = ''Suffolk County'', state_name = ''MA''\<rparr>"
        and g = "''25025''"] boston_hud
    by (simp add: ok_def suffolkCounty_def)
  have 2: "getCountyFromZip offline ''02115'' =
     Some (Own suffolkCounty)"
    using county_resolution_order [where w = offline and zipCode = "''02115''" and e = NetworkError
        and entry = suffolkCounty]
      offline_hud fallback_02115
    by simp
  have d: "list_all isDigit ''99999''" by (simp add: isDigit_def)
  have 3: "getCountyFromZip offline ''99999'' = None"
    using county_resolution_order [where w = offline and zipCode = "''99999''" and e = NetworkError]
      offline_hud fallback_99999 d
    by simp
  have 4: "fetchEmploymentDataForZip offline ''k'' ''99999'' =
       Inl (ApiError ''Failed to fetch employment data: Could not find county for ZIP code 99999'')"
    using county_resolution_order [where w = offline and zipCode = "''99999''" and apiKey = "''k''"] 3
    by simp
  from 1 2 3 4 show ?thesis by simp
qed

text \<open>
  C4. On a cache miss \<open>fetchNAICSCodes\<close> returns the list of the chart method when that is
  not empty, else the list of the sweep method when that is not empty, else the static
  fallback list, which is not empty. In every state the service can reach, a cache hit
  included, the list it returns is not empty; the function has no failing outcome.
\<close>

theorem naics_codes_never_empty:
  "(cache s (''all-'' @ year) = None \<longrightarrow>
      fst (fetchNAICSCodes w s year) =
        (let (chart, s1) = tryChartMethod w s year in
         if chart \<noteq> [] then chart
         else (let (swept, s2) = sweepSearchMethod w s1 year in
               if swept \<noteq> [] then swept else getFallbackNAICSCodes)))
   \<and> getFallbackNAICSCodes \<noteq> []
   \<and> (reachable s \<longrightarrow> fst (fetchNAICSCodes w s year) \<noteq> [])"
proof (intro conjI impI)
  assume miss: "cache s (''all-'' @ year) = None"
  obtain chart s1 where c: "tryChartMethod w s year = (chart, s1)"
    by (cases "tryChartMethod w s year")
  obtain swept s2 where sw: "sweepSearchMethod w s1 year = (swept, s2)"
    by (cases "sweepSearchMethod w s1 year")
  show "fst (fetchNAICSCodes w s year) =
        (let (chart, s1) = tryChartMethod w s year in
         if chart \<noteq> [] then chart
         else (let (swept, s2) = sweepSearchMethod w s1 year in
               if swept \<noteq> [] then swept else getFallbackNAICSCodes))"
    using miss c sw by (simp add: fetchNAICSCodes_def)
next
  show "getFallbackNAICSCodes \<noteq> []"
    by (simp add: getFallbackNAICSCodes_def)
next
  assume r: "reachable s"
  show "fst (fetchNAICSCodes w s year) \<noteq> []"
  proof (cases "cache s (''all-'' @ year)")
    case None
    then show ?thesis by (rule fetchNAICSCodes_nonempty_miss)
  next
    case (Some v)
    then show ?thesis
      using reachable_cacheInv [OF r] by (auto simp: fetchNAICSCodes_def cacheInv_def)
  qed
qed

theorem naics_codes_never_empty_witness:
  "cache initial (''all-'' @ ''2022'') = None
   \<and> reachable initial
   \<and> fst (fetchNAICSCodes offline initial ''2022'') = getFallbackNAICSCodes
   \<and> fst (fetchNAICSCodes offline initial ''2022'') \<noteq> []"
proof -
  have miss: "cache initial (''all-'' @ ''2022'') = None"
    by (simp add: initial_def)
  obtain s2 where sw:
    "sweepSearchMethod offline (initial\<lparr>requests := [Chart ''2022'']\<rparr>) ''2022'' = ([], s2)"
    using offline_sweep [of "initial\<lparr>requests := [Chart ''2022'']\<rparr>"]
    by (cases "sweepSearchMethod offline (initial\<lparr>requests := [Chart ''2022'']\<rparr>) ''2022''") simp
  show ?thesis
    using naics_codes_never_empty [of initial "''2022''" offline] miss reachable_initial
    by (simp add: offline_chart sw)
qed

text \<open>
  C5. In every state the service can reach, every code \<open>getChildCodes\<close> returns for a parent
  code is one character longer than the parent, starts with it and consists of digits;
  the codes are pairwise distinct and in ascending order.
\<close>

theorem child_codes_direct_children:
  assumes "reachable s"
  shows "(\<forall>x \<in> set (fst (getChildCodes w s parentCode)).
            length (code x) = length parentCode + 1
            \<and> startsWith (code x) parentCode
            \<and> list_all isDigit (code x))
         \<and> distinct (map code (fst (getChildCodes w s parentCode)))
         \<and> sorted (map code (fst (getChildCodes w s parentCode)))"
  using getChildCodes_children [OF assms, of parentCode w]
  by (simp add: childrenOf_def allDigits_def)

theorem child_codes_direct_children_witness:
  "reachable initial
   \<and> map code (fst (getChildCodes boston initial ''62'')) = [''621'', ''622'']
   \<and> list_all (\<lambda>x. length (code x) = length ''62'' + 1 \<and> startsWith (code x) ''62''
                    \<and> list_all isDigit (code x))
        (fst (getChildCodes boston initial ''62''))
   \<and> distinct (map code (fst (getChildCodes boston initial ''62'')))
   \<and> sorted (map code (fst (getChildCodes boston initial ''62'')))"
  using child_codes_direct_children [OF reachable_initial, of boston "''62''"] reachable_initial
  by (simp add: list_all_iff boston_children)

text \<open>
  C6. Every item of the lists \<open>fetchEmploymentByCounty\<close> and \<open>fetchSubIndustries\<close> return
  has a positive number of employees, of establishments or a positive payroll, and each
  list is in non-increasing order of \<open>employees\<close>.
\<close>

theorem results_have_data_and_are_ranked:
  "(\<forall>item \<in> set (fetchEmploymentByCounty w apiKey state' county' zip').
      employees item > 0 \<or> establishments item > 0 \<or> payroll item > 0)
   \<and> sorted_wrt (\<lambda>a b. employees a \<ge> employees b)
        (fetchEmploymentByCounty w apiKey state' county' zip')
   \<and> (\<forall>item \<in> set (fst (fetchSubIndustries w apiKey s state' county' parentNaicsCode zip')).
      employees item > 0 \<or> establishments item > 0 \<or> payroll item > 0)
   \<and> sorted_wrt (\<lambda>a b. employees a \<ge> employees b)
        (fst (fetchSubIndustries w apiKey s state' county' parentNaicsCode zip'))"
proof (intro conjI)
  show "\<forall>item \<in> set (fetchEmploymentByCounty w apiKey state' county' zip').
      employees item > 0 \<or> establishments item > 0 \<or> payroll item > 0"
    by (auto simp: fetchEmploymentByCounty_def set_sortByEmployees hasData_def)
  show "sorted_wrt (\<lambda>a b. employees a \<ge> employees b)
        (fetchEmploymentByCounty w apiKey state' county' zip')"
    unfolding fetchEmploymentByCounty_def by (rule sorted_sortByEmployees)
  obtain xs s1 where g: "getChildCodes w s parentNaicsCode = (xs, s1)"
    by (cases "getChildCodes w s parentNaicsCode")
  show "\<forall>item \<in> set (fst (fetchSubIndustries w apiKey s state' county' parentNaicsCode zip')).
      employees item > 0 \<or> establishments item > 0 \<or> payroll item > 0"
    using g by (auto simp: fetchSubIndustries_def set_sortByEmployees hasData_def)
  show "sorted_wrt (\<lambda>a b. employees a \<ge> employees b)
        (fst (fetchSubIndustries w apiKey s state' county' parentNaicsCode zip'))"
    using g sorted_sortByEmployees by (simp add: fetchSubIndustries_def)
qed

theorem results_have_data_and_are_ranked_witness:
  "fetchEmploymentByCounty boston ''k'' ''25'' ''025'' ''02115'' =
     [suffolkItem ''Health care'' 120000 3000 9000000000 ''62'',
      suffolkItem ''Agriculture'' 50 7 900000 ''11'']
   \<and> list_all (\<lambda>item. employees item > 0 \<or> establishments item > 0 \<or> payroll item > 0)
        (fetchEmploymentByCounty boston ''k'' ''25'' ''025'' ''02115'')
   \<and> sorted_wrt (\<lambda>a b. employees a \<ge> employees b)
        (fetchEmploymentByCounty boston ''k'' ''25'' ''025'' ''02115'')
   \<and> fst (fetchSubIndustries boston ''k'' initial ''25'' ''025'' ''62'' ''02115'') =
       [suffolkItem ''Hospitals'' 70000 20 6000000000 ''622'',
        suffolkItem ''Ambulatory care'' 40000 2500 0 ''621'']
   \<and> list_all (\<lambda>item. employees item > 0 \<or> establishments item > 0 \<or> payroll item > 0)
        (fst (fetchSubIndustries boston ''k'' initial ''25'' ''025'' ''62'' ''02115''))
   \<and> sorted_wrt (\<lambda>a b. employees a \<ge> employees b)
        (fst (fetchSubIndustries boston ''k'' initial ''25'' ''025'' ''62'' ''02115''))"
  using results_have_data_and_are_ranked
      [of boston "''k''" "''25''" "''025''" "''02115''" initial "''62''"]
  by (simp add: list_all_iff boston_sectors boston_subsectors)

text \<open>
  C7. In every state the service can reach, every item \<open>fetchSubIndustries\<close> returns has
  the code of one of the child codes \<open>getChildCodes\<close> gives for the parent, a code one
  character longer than the parent's, and its \<open>level\<close> is the parent's length plus one.
\<close>

theorem drill_down_one_digit_longer:
  assumes "reachable s"
  shows "\<forall>item \<in> set (fst (fetchSubIndustries w apiKey s state' county' parentNaicsCode zip')).
           naicsCode item \<in> code ` set (fst (getChildCodes w s parentNaicsCode))
           \<and> length (naicsCode item) = length parentNaicsCode + 1
           \<and> level item = Some (length parentNaicsCode + 1)"
proof
  fix item
  assume "item \<in> set (fst (fetchSubIndustries w apiKey s state' county' parentNaicsCode zip'))"
  then obtain ch x where ch: "ch \<in> set (fst (getChildCodes w s parentNaicsCode))"
    and x: "x \<in> set (fetchCountySectorData w apiKey state' county' (code ch) zip')"
    and item: "item = x\<lparr>level := Some (length (code ch))\<rparr>"
    unfolding set_fetchSubIndustries by blast
  have len: "length (code ch) = length parentNaicsCode + 1"
    using getChildCodes_children [OF assms, of parentNaicsCode w] ch
    by (simp add: childrenOf_def)
  have "naicsCode x = code ch"
    using fetchCountySectorData_items [of w apiKey state' county' "code ch" zip'] x by blast
  then show "naicsCode item \<in> code ` set (fst (getChildCodes w s parentNaicsCode))
           \<and> length (naicsCode item) = length parentNaicsCode + 1
           \<and> level item = Some (length parentNaicsCode + 1)"
    using ch len item by simp
qed

theorem drill_down_one_digit_longer_witness:
  "reachable initial
   \<and> map code (fst (getChildCodes boston initial ''62'')) = [''621'', ''622'']
   \<and> map (\<lambda>item. (naicsCode item, level item))
       (fst (fetchSubIndustries boston ''k'' initial ''25'' ''025'' ''62'' ''02115''))
     = [(''622'', Some 3), (''621'', Some 3)]
   \<and> list_all (\<lambda>item. naicsCode item \<in> code ` set (fst (getChildCodes boston initial ''62''))
                   \<and> length (naicsCode item) = length ''62'' + 1
                   \<and> level item = Some (length ''62'' + 1))
       (fst (fetchSubIndustries boston ''k'' initial ''25'' ''025'' ''62'' ''02115''))"
  using drill_down_one_digit_longer
      [OF reachable_initial, of boston "''k''" "''25''" "''025''" "''62''" "''02115''"]
    reachable_initial
  by (simp add: list_all_iff boston_children boston_subsectors suffolkItem_def)




text \<open>
  C10. \<open>fetchCountySectorData\<close> returns the empty list when the request fails, the status
  is not ok, the body is empty or not JSON, or a row makes the loop throw;
  \<open>fetchCountyTotals\<close> returns three zeros under the same conditions; \<open>fetchSubIndustries\<close>
  returns the empty list when the child lookup misses the cache and every NAICS request
  fails. None of the three has a failing outcome. The fan-outs collect what every
  sector, or every child code, yields, whatever the others do.
\<close>

theorem fetchers_fall_back_on_failure:
  "(census w (sectorUrl apiKey state' county' naicsCode') = FetchFailed
      \<longrightarrow> fetchCountySectorData w apiKey state' county' naicsCode' zip' = [])
   \<and> (census w (sectorUrl apiKey state' county' naicsCode') = Response status body
        \<and> (\<not> ok status \<or> body = Blank \<or> body = Malformed
             \<or> (\<exists>data. body = Rows data \<and> NullRow \<in> set (tl data)))
      \<longrightarrow> fetchCountySectorData w apiKey state' county' naicsCode' zip' = [])
   \<and> (census w (totalsUrl apiKey state' county') = FetchFailed
      \<longrightarrow> fetchCountyTotals w apiKey state' county' zip'
            = \<lparr>totalEmployees = 0, totalEstablishments = 0, totalPayroll = 0\<rparr>)
   \<and> (census w (totalsUrl apiKey state' county') = Response status' body'
        \<and> (\<not> ok status' \<or> body' = Blank \<or> body' = Malformed
             \<or> (\<exists>data. body' = Rows data \<and> 2 \<le> length data \<and> data ! 1 = NullRow))
      \<longrightarrow> fetchCountyTotals w apiKey state' county' zip'
            = \<lparr>totalEmployees = 0, totalEstablishments = 0, totalPayroll = 0\<rparr>)
   \<and> (cache s (''children-'' @ parentNaicsCode) = None
        \<and> (\<forall>n rq. naics w n rq = FetchFailed
               \<or> (\<exists>status body. naics w n rq = Response status body
                     \<and> (\<not> ok status \<or> body = NaicsMalformed \<or> body = NaicsNull)))
      \<longrightarrow> fst (fetchSubIndustries w apiKey s state' county' parentNaicsCode zip') = [])
   \<and> set (fetchEmploymentByCounty w apiKey state' county' zip')
       = (\<Union>c \<in> set naicsCodes. set (fetchCountySectorData w apiKey state' county' c zip'))
   \<and> set (fst (fetchSubIndustries w apiKey s state' county' parentNaicsCode zip'))
       = (\<Union>ch \<in> set (fst (getChildCodes w s parentNaicsCode)).
            (\<lambda>item. item\<lparr>level := Some (length (code ch))\<rparr>)
              ` set (fetchCountySectorData w apiKey state' county' (code ch) zip'))"
proof (intro conjI impI)
  assume "census w (sectorUrl apiKey state' county' naicsCode') = FetchFailed"
  then show "fetchCountySectorData w apiKey state' county' naicsCode' zip' = []"
    by (simp add: fetchCountySectorData_def)
next
  assume a: "census w (sectorUrl apiKey state' county' naicsCode') = Response status body
        \<and> (\<not> ok status \<or> body = Blank \<or> body = Malformed
             \<or> (\<exists>data. body = Rows data \<and> NullRow \<in> set (tl data)))"
  then show "fetchCountySectorData w apiKey state' county' naicsCode' zip' = []"
    by (auto simp: fetchCountySectorData_def sectorRows_NullRow)
next
  assume "census w (totalsUrl apiKey state' county') = FetchFailed"
  then show "fetchCountyTotals w apiKey state' county' zip'
            = \<lparr>totalEmployees = 0, totalEstablishments = 0, totalPayroll = 0\<rparr>"
    by (simp add: fetchCountyTotals_def zeroTotals_def)
next
  assume "census w (totalsUrl apiKey state' county') = Response status' body'
        \<and> (\<not> ok status' \<or> body' = Blank \<or> body' = Malformed
             \<or> (\<exists>data. body' = Rows data \<and> 2 \<le> length data \<and> data ! 1 = NullRow))"
  then show "fetchCountyTotals w apiKey state' county' zip'
            = \<lparr>totalEmployees = 0, totalEstablishments = 0, totalPayroll = 0\<rparr>"
    by (auto simp: fetchCountyTotals_def zeroTotals_def)
next
  assume a: "cache s (''children-'' @ parentNaicsCode) = None
        \<and> (\<forall>n rq. naics w n rq = FetchFailed
               \<or> (\<exists>status body. naics w n rq = Response status body
                     \<and> (\<not> ok status \<or> body = NaicsMalformed \<or> body = NaicsNull)))"
  then have "fst (searchTerms w parentNaicsCode [] s (searchStrategies parentNaicsCode)) = []"
    using searchTerms_failing by blast
  then have "fst (searchChildCodes w s parentNaicsCode) = []"
    by (cases "searchTerms w parentNaicsCode [] s (searchStrategies parentNaicsCode)")
       (simp add: searchChildCodes_def)
  then have "fst (getChildCodes w s parentNaicsCode) = []"
    using a getChildCodes_miss by simp
  then show "fst (fetchSubIndustries w apiKey s state' county' parentNaicsCode zip') = []"
    by (rule fetchSubIndustries_no_children)
next
  show "set (fetchEmploymentByCounty w apiKey state' county' zip')
       = (\<Union>c \<in> set naicsCodes. set (fetchCountySectorData w apiKey state' county' c zip'))"
    by (rule set_fetchEmploymentByCounty)
next
  show "set (fst (fetchSubIndustries w apiKey s state' county' parentNaicsCode zip'))
       = (\<Union>ch \<in> set (fst (getChildCodes w s parentNaicsCode)).
            (\<lambda>item. item\<lparr>level := Some (length (code ch))\<rparr>)
              ` set (fetchCountySectorData w apiKey state' county' (code ch) zip'))"
    by (rule set_fetchSubIndustries)
qed

theorem fetchers_fall_back_on_failure_witness:
  "fetchCountySectorData offline ''k'' ''25'' ''025'' ''62'' ''02115'' = []
   \<and> fetchCountySectorData boston ''k'' ''25'' ''025'' ''21'' ''02115'' = []
   \<and> fetchCountySectorData boston ''k'' ''25'' ''025'' ''22'' ''02115'' = []
   \<and> fetchCountySectorData boston ''k'' ''25'' ''025'' ''23'' ''02115'' = []
   \<and> fetchCountySectorData boston ''k'' ''25'' ''025'' ''99'' ''02115'' = []
   \<and> fetchCountyTotals offline ''k'' ''25'' ''025'' ''02115''
       = \<lparr>totalEmployees = 0, totalEstablishments = 0, totalPayroll = 0\<rparr>
   \<and> fetchCountyTotals boston ''k'' ''25'' ''017'' ''02115''
       = \<lparr>totalEmployees = 0, totalEstablishments = 0, totalPayroll = 0\<rparr>
   \<and> fst (fetchSubIndustries offline ''k'' initial ''25'' ''025'' ''62'' ''02115'') = []
   \<and> set (fetchEmploymentByCounty boston ''k'' ''25'' ''025'' ''02115'')
       = {suffolkItem ''Health care'' 120000 3000 9000000000 ''62'',
          suffolkItem ''Agriculture'' 50 7 900000 ''11''}"
proof -
  note inst = fetchers_fall_back_on_failure
      [where apiKey = "''k''" and state' = "''25''" and zip' = "''02115''" and s = initial
         and parentNaicsCode = "''62''"]
  have 1: "fetchCountySectorData offline ''k'' ''25'' ''025'' ''62'' ''02115'' = []"
    using inst [where w = offline and county' = "''025''" and naicsCode' = "''62''"]
    by (simp add: offline_def)
  have 2: "fetchCountySectorData boston ''k'' ''25'' ''025'' ''21'' ''02115'' = []"
    using inst [where w = boston and county' = "''025''" and naicsCode' = "''21''"
        and status = 500 and body = Blank] boston_census_21
    by simp
  have 3: "fetchCountySectorData boston ''k'' ''25'' ''025'' ''22'' ''02115'' = []"
    using inst [where w = boston and county' = "''025''" and naicsCode' = "''22''"
        and status = 200 and body = Malformed] boston_census_22
    by simp
  have 4: "fetchCountySectorData boston ''k'' ''25'' ''025'' ''23'' ''02115'' = []"
    using inst [where w = boston and county' = "''025''" and naicsCode' = "''23''"
        and status = 200
        and body = "Rows [header, suffolk ''Construction'' ''900'' ''80'' ''70000'', NullRow]"]
      boston_census_23
    by simp
  have 5: "fetchCountySectorData boston ''k'' ''25'' ''025'' ''99'' ''02115'' = []"
    using inst [where w = boston and county' = "''025''" and naicsCode' = "''99''"
        and status = 204 and body = Blank] boston_census_99
    by simp
  have 6: "fetchCountyTotals offline ''k'' ''25'' ''025'' ''02115''
       = \<lparr>totalEmployees = 0, totalEstablishments = 0, totalPayroll = 0\<rparr>"
    using inst [where w = offline and county' = "''025''"]
    by (simp add: offline_def)
  have 7: "fetchCountyTotals boston ''k'' ''25'' ''017'' ''02115''
       = \<lparr>totalEmployees = 0, totalEstablishments = 0, totalPayroll = 0\<rparr>"
    using inst [where w = boston and county' = "''017''" and status' = 200
        and body' = "Rows [header, NullRow]"] boston_census_totals_017
    by simp
  have 8: "fst (fetchSubIndustries offline ''k'' initial ''25'' ''025'' ''62'' ''02115'') = []"
    using inst [where w = offline and county' = "''025''"]
    by (simp add: offline_def initial_def)
  have 9: "set (fetchEmploymentByCounty boston ''k'' ''25'' ''025'' ''02115'')
       = {suffolkItem ''Health care'' 120000 3000 9000000000 ''62'',
          suffolkItem ''Agriculture'' 50 7 900000 ''11''}"
    by (simp add: boston_sectors)
  from 1 2 3 4 5 6 7 8 9 show ?thesis by simp
qed

end
